theory Spec2Isabelle
  imports Main "HOL-Library.AList"
begin

section \<open>Values shared by the server and the edge middleware\<close>

text \<open>
  JavaScript objects that travel as JSON (response bodies, MongoDB documents) are values of
  \<open>json\<close>. An object is an association list; a field that is \<open>undefined\<close> is a key that is
  absent, which is what \<open>JSON.stringify\<close> makes of it.
\<close>

datatype json =
    JNull
  | JBool bool
  | JNum int
  | JStr string
  | JArr "json list"
  | JObj "(string \<times> json) list"

type_synonym document = "(string \<times> json) list"

text \<open>What a call that may throw gives back: the thrown value or the returned one.\<close>

datatype thrown = ErrorObj string | NonError

datatype 'a outcome = Thrown thrown | Returned 'a

text \<open>\<open>error instanceof Error ? error.message : 'Unknown error'\<close>\<close>

fun errorMessage :: "thrown \<Rightarrow> string" where
  "errorMessage (ErrorObj m) = m"
| "errorMessage NonError = ''Unknown error''"

text \<open>\<open>process.env\<close>: a variable that is not set is \<open>None\<close>.\<close>

record env =
  NODE_ENV :: "string option"
  DEBUG_AUTH :: "string option"

text \<open>
  A URL is kept in parts: scheme and host, path, and query parameters in order.
  \<open>request.url.split('?')[0]\<close> is the first two parts.
\<close>

record url =
  url_base :: string
  url_pathname :: string
  url_searchParams :: "(string \<times> string) list"

definition url_without_query :: "url \<Rightarrow> string" where
  "url_without_query u = url_base u @ url_pathname u"

text \<open>
  The part of a \<open>NextRequest\<close> the code reads. Header names are held lower-cased, as the
  \<open>Headers\<close> object holds them.
\<close>

record request =
  req_method :: string
  req_url :: url
  req_headers :: "(string \<times> string) list"
  req_cookies :: "(string \<times> string) list"

record cookie =
  c_value :: string
  c_path :: "string option"
  c_expires :: "int option"
  c_maxAge :: "int option"
  c_httpOnly :: "bool option"
  c_secure :: "bool option"
  c_sameSite :: "string option"

datatype resp_kind = Plain | Next | Redirect url

record response =
  res_kind :: resp_kind
  res_status :: nat
  res_body :: "json option"
  res_headers :: "(string \<times> string) list"
  res_cookies :: "(string \<times> cookie) list"

text \<open>\<open>NextResponse.json(body, { status })\<close>\<close>

definition NextResponse_json :: "json \<Rightarrow> nat \<Rightarrow> response" where
  "NextResponse_json b st =
     \<lparr>res_kind = Plain, res_status = st, res_body = Some b,
      res_headers = [(''content-type'', ''application/json'')], res_cookies = []\<rparr>"

text \<open>\<open>s.startsWith(p)\<close>\<close>

fun startsWith :: "string \<Rightarrow> string \<Rightarrow> bool" where
  "startsWith s [] = True"
| "startsWith [] (p # ps) = False"
| "startsWith (c # cs) (p # ps) = (c = p \<and> startsWith cs ps)"

text \<open>Truthiness of a \<open>string | null | undefined\<close>: neither absent nor empty.\<close>

fun truthy :: "string option \<Rightarrow> bool" where
  "truthy None = False"
| "truthy (Some s) = (s \<noteq> [])"

section \<open>The request authenticator (\<open>authenticateRequest\<close>)\<close>

definition TOKEN_MAX_AGE_MS :: int where
  "TOKEN_MAX_AGE_MS = 7 * 24 * 60 * 60 * 1000"

record tokenData =
  userId :: string
  timestamp :: int

text \<open>The \<open>{ user, error }\<close> object that \<open>authenticateRequest\<close> returns.\<close>

record auth_result =
  auth_user :: "document option"
  auth_error :: "string option"

definition auth_fail :: "string \<Rightarrow> auth_result" where
  "auth_fail msg = \<lparr>auth_user = None, auth_error = Some msg\<rparr>"

text \<open>\<open>const { password, ...userWithoutPassword } = user\<close>\<close>

definition withoutPassword :: "document \<Rightarrow> document" where
  "withoutPassword user = filter (\<lambda>kv. fst kv \<noteq> ''password'') user"

text \<open>
  \<open>parseToken\<close> is imported from a module that is not among the sources, and the user store
  is MongoDB; both are parameters. \<open>parseToken token\<close> returns the token data or \<open>null\<close>, or
  throws. \<open>findOne uid\<close> stands for the three calls of the inner \<open>try\<close> block
  (\<open>getMongoDb()\<close>, \<open>new ObjectId(uid)\<close>, \<open>findOne\<close>): it returns the document or \<open>null\<close>, or
  one of them throws. \<open>now\<close> is \<open>Date.now()\<close>.

  The calls of \<open>debugLog\<close> only write to the console, but their arguments are evaluated
  first. One of them can throw: \<open>user.username?.substring(0, 2)\<close>, in the inner \<open>try\<close>
  block after the user is found, is a \<open>TypeError\<close> when \<open>username\<close> is neither absent,
  \<open>null\<close> nor a string, and the inner \<open>catch\<close> answers it like a store fault. The others
  cannot throw and are left out.
\<close>

fun substringCallable :: "json option \<Rightarrow> bool" where
  "substringCallable None = True"
| "substringCallable (Some JNull) = True"
| "substringCallable (Some (JStr s)) = True"
| "substringCallable (Some other) = False"

definition authenticateRequest ::
  "(string \<Rightarrow> tokenData option outcome) \<Rightarrow> (string \<Rightarrow> document option outcome) \<Rightarrow>
   int \<Rightarrow> request \<Rightarrow> auth_result" where
  "authenticateRequest parseToken findOne now request =
     (case map_of (req_cookies request) ''token'' of
        None \<Rightarrow> auth_fail ''No token provided''
      | Some token \<Rightarrow>
          if token = [] then auth_fail ''No token provided''
          else
            (case parseToken token of
               Thrown e \<Rightarrow> auth_fail ''Authentication failed''
             | Returned None \<Rightarrow> auth_fail ''Invalid token format''
             | Returned (Some td) \<Rightarrow>
                 (let tokenAge = now - timestamp td in
                  if tokenAge > TOKEN_MAX_AGE_MS then auth_fail ''Token expired''
                  else
                    (case findOne (userId td) of
                       Thrown dbError \<Rightarrow> auth_fail ''Database error during authentication''
                     | Returned None \<Rightarrow> auth_fail ''User not found''
                     | Returned (Some user) \<Rightarrow>
                         if substringCallable (map_of user ''username'') then
                           \<lparr>auth_user = Some (withoutPassword user), auth_error = None\<rparr>
                         else auth_fail ''Database error during authentication''))))"

section \<open>The role authorizer (\<open>withAuth\<close>)\<close>

text \<open>\<open>roles.includes(user.role)\<close>: only a string can be a member of a list of strings.\<close>

fun rolesInclude :: "string list \<Rightarrow> json option \<Rightarrow> bool" where
  "rolesInclude roles (Some (JStr r)) = (r \<in> set roles)"
| "rolesInclude roles other = False"

text \<open>
  The \<open>_debug\<close> field is \<open>undefined\<close>, hence absent from the body, unless
  \<open>DEBUG_AUTH === 'true' || NODE_ENV !== 'production'\<close>.
\<close>

definition debugEnabled :: "env \<Rightarrow> bool" where
  "debugEnabled e = (DEBUG_AUTH e = Some ''true'' \<or> NODE_ENV e \<noteq> Some ''production'')"

definition handlerErrorBody :: "env \<Rightarrow> thrown \<Rightarrow> request \<Rightarrow> json" where
  "handlerErrorBody e err request =
     JObj ([(''success'', JBool False), (''message'', JStr ''Internal server error'')] @
           (if debugEnabled e
            then [(''_debug'', JObj [(''error'', JStr (errorMessage err)),
                                     (''path'', JStr (url_without_query (req_url request)))])]
            else []))"

text \<open>
  The wrapped handler receives the request with the user attached
  (\<open>authRequest.user = user\<close>), here as a second argument, and returns a response or throws.
\<close>

definition withAuth ::
  "env \<Rightarrow> (string \<Rightarrow> tokenData option outcome) \<Rightarrow> (string \<Rightarrow> document option outcome) \<Rightarrow>
   (request \<Rightarrow> document \<Rightarrow> response outcome) \<Rightarrow> string list \<Rightarrow>
   int \<Rightarrow> request \<Rightarrow> response" where
  "withAuth e parseToken findOne handler roles now request =
     (let r = authenticateRequest parseToken findOne now request in
      if truthy (auth_error r) then
        NextResponse_json
          (JObj [(''success'', JBool False),
                 (''message'', JStr (''Unauthorized: '' @ the (auth_error r)))])
          401
      else
        (case auth_user r of
           None \<Rightarrow>
             NextResponse_json
               (JObj [(''success'', JBool False),
                      (''message'', JStr (''Unauthorized: '' @ ''No user found''))])
               401
         | Some user \<Rightarrow>
             if roles \<noteq> [] \<and> \<not> rolesInclude roles (map_of user ''role'') then
               NextResponse_json
                 (JObj [(''success'', JBool False),
                        (''message'', JStr ''Forbidden: Insufficient permissions'')])
                 403
             else
               (case handler request user of
                  Returned result \<Rightarrow> result
                | Thrown err \<Rightarrow> NextResponse_json (handlerErrorBody e err request) 500)))"

section \<open>The API routes built on the authorizer\<close>

text \<open>\<open>response.cookies.set(name, value, options)\<close>\<close>

definition cookies_set :: "response \<Rightarrow> string \<Rightarrow> cookie \<Rightarrow> response" where
  "cookies_set r name c = r\<lparr>res_cookies := AList.update name c (res_cookies r)\<rparr>"

text \<open>
  Message texts of the source that are not ASCII are held as their UTF-8 bytes:
  the logout route's success message and the routes' system-error message.
\<close>

definition msg_logout_ok :: string where
  "msg_logout_ok = map char_of
     [196, 144, 196, 131, 110, 103, 32, 120, 117, 225, 186, 165, 116, 32, 116, 104, 195, 160,
      110, 104, 32, 99, 195, 180, 110, 103 :: nat]"

definition msg_system_error :: string where
  "msg_system_error = map char_of
     [76, 225, 187, 151, 105, 32, 104, 225, 187, 135, 32, 116, 104, 225, 187, 145, 110, 103 :: nat]"

definition msg_login_required :: string where
  "msg_login_required = map char_of
     [84, 195, 170, 110, 32, 196, 145, 196, 131, 110, 103, 32, 110, 104, 225, 186, 173, 112, 32,
      118, 195, 160, 32, 109, 225, 186, 173, 116, 32, 107, 104, 225, 186, 169, 117, 32, 108, 195,
      160, 32, 98, 225, 186, 175, 116, 32, 98, 117, 225, 187, 153, 99 :: nat]"

definition msg_login_wrong :: string where
  "msg_login_wrong = map char_of
     [84, 195, 170, 110, 32, 196, 145, 196, 131, 110, 103, 32, 110, 104, 225, 186, 173, 112, 32,
      104, 111, 225, 186, 183, 99, 32, 109, 225, 186, 173, 116, 32, 107, 104, 225, 186, 169, 117,
      32, 107, 104, 195, 180, 110, 103, 32, 196, 145, 195, 186, 110, 103 :: nat]"

text \<open>
  \<open>POST /api/auth/logout\<close>: the handler builds the success response and sets the cookie
  \<open>token\<close> to the empty string with \<open>maxAge: 0\<close>. Nothing in its \<open>try\<close> block throws. It is
  exported wrapped, \<open>withAuth(handler)\<close>, so with the default roles \<open>['user']\<close>.
\<close>

definition logout_handler :: "env \<Rightarrow> request \<Rightarrow> document \<Rightarrow> response outcome" where
  "logout_handler e request user =
     Returned
       (cookies_set
          (NextResponse_json
             (JObj [(''success'', JBool True), (''message'', JStr msg_logout_ok)]) 200)
          ''token''
          \<lparr>c_value = '''', c_path = Some ''/'', c_expires = None, c_maxAge = Some 0,
           c_httpOnly = Some True, c_secure = Some (NODE_ENV e = Some ''production''),
           c_sameSite = Some ''lax''\<rparr>)"

definition POST_logout ::
  "env \<Rightarrow> (string \<Rightarrow> tokenData option outcome) \<Rightarrow> (string \<Rightarrow> document option outcome) \<Rightarrow>
   int \<Rightarrow> request \<Rightarrow> response" where
  "POST_logout e parseToken findOne now request =
     withAuth e parseToken findOne (logout_handler e) [''user''] now request"

text \<open>Truthiness of a JavaScript value, and \<open>a || b\<close> on a field that may be \<open>undefined\<close>.\<close>

fun js_truthy :: "json option \<Rightarrow> bool" where
  "js_truthy None = False"
| "js_truthy (Some JNull) = False"
| "js_truthy (Some (JBool b)) = b"
| "js_truthy (Some (JNum n)) = (n \<noteq> 0)"
| "js_truthy (Some (JStr s)) = (s \<noteq> [])"
| "js_truthy (Some (JArr xs)) = True"
| "js_truthy (Some (JObj fs)) = True"

definition js_or :: "json option \<Rightarrow> json \<Rightarrow> json" where
  "js_or a b = (if js_truthy a then the a else b)"

text \<open>A field of an object literal whose value may be \<open>undefined\<close>.\<close>

fun optField :: "string \<Rightarrow> json option \<Rightarrow> (string \<times> json) list" where
  "optField k None = []"
| "optField k (Some v) = [(k, v)]"

text \<open>
  \<open>GET /api/auth/me\<close>: the handler answers 200 with the user's fields, defaults filled in.
  \<open>isoNow\<close> is \<open>new Date().toISOString()\<close>. Nothing in its \<open>try\<close> block throws.
\<close>

definition me_handler :: "string \<Rightarrow> request \<Rightarrow> document \<Rightarrow> response outcome" where
  "me_handler isoNow request user =
     Returned
       (NextResponse_json
          (JObj [(''success'', JBool True),
                 (''user'', JObj
                    (optField ''id'' (map_of user ''_id'') @
                     [(''username'', js_or (map_of user ''username'') (JStr '''')),
                      (''email'', js_or (map_of user ''email'') (JStr '''')),
                      (''name'', js_or (map_of user ''name'')
                                   (js_or (map_of user ''username'') (JStr ''''))),
                      (''role'', js_or (map_of user ''role'') (JStr ''user'')),
                      (''balance'', js_or (map_of user ''balance'')
                                      (JObj [(''available'', JNum 0), (''frozen'', JNum 0)])),
                      (''bank'', js_or (map_of user ''bank'')
                                   (JObj [(''name'', JStr ''''), (''accountNumber'', JStr ''''),
                                          (''accountHolder'', JStr '''')])),
                      (''verification'', js_or (map_of user ''verification'')
                                   (JObj [(''verified'', JBool False), (''cccdFront'', JStr ''''),
                                          (''cccdBack'', JStr '''')])),
                      (''status'', js_or (map_of user ''status'')
                                   (JObj [(''active'', JBool True), (''betLocked'', JBool False),
                                          (''withdrawLocked'', JBool False)])),
                      (''createdAt'', js_or (map_of user ''createdAt'') (JStr isoNow)),
                      (''updatedAt'', js_or (map_of user ''updatedAt'') (JStr isoNow)),
                      (''lastLogin'', js_or (map_of user ''lastLogin'') (JStr isoNow))]))])
          200)"

definition GET_me ::
  "env \<Rightarrow> (string \<Rightarrow> tokenData option outcome) \<Rightarrow> (string \<Rightarrow> document option outcome) \<Rightarrow>
   string \<Rightarrow> int \<Rightarrow> request \<Rightarrow> response" where
  "GET_me e parseToken findOne isoNow now request =
     withAuth e parseToken findOne (me_handler isoNow) [''user''] now request"

text \<open>
  \<open>POST /api/auth/login\<close>. The body is what \<open>request.json()\<close> gives (it may throw);
  \<open>findByUsername\<close> stands for \<open>getMongoDb()\<close> and \<open>findOne({ username })\<close>; \<open>comparePassword\<close>
  and \<open>generateToken\<close> are imported from the module that is not among the sources and are
  parameters. A user document holds its \<open>_id\<close> as the string \<open>_id.toString()\<close> gives. Every
  exception is caught by the route's own \<open>catch\<close>, which answers 500.
\<close>

definition login_error :: response where
  "login_error =
     NextResponse_json (JObj [(''success'', JBool False), (''message'', JStr msg_system_error)]) 500"

definition TOKEN_MAX_AGE_SEC :: int where
  "TOKEN_MAX_AGE_SEC = TOKEN_MAX_AGE_MS div 1000"

definition login_success ::
  "env \<Rightarrow> document \<Rightarrow> string \<Rightarrow> response" where
  "login_success e user token =
     (let response =
            NextResponse_json
              (JObj [(''success'', JBool True),
                     (''user'', JObj
                        (optField ''id'' (map_of user ''_id'') @
                         optField ''name'' (map_of user ''name'') @
                         optField ''username'' (map_of user ''username'') @
                         [(''role'', js_or (map_of user ''role'') (JStr ''user'')),
                          (''balance'', js_or (map_of user ''balance'') (JNum 0))]))])
              200;
          response = cookies_set response ''token''
            \<lparr>c_value = token, c_path = Some ''/'', c_expires = None,
             c_maxAge = Some TOKEN_MAX_AGE_SEC,
             c_httpOnly = Some (NODE_ENV e = Some ''production''),
             c_secure = Some (NODE_ENV e = Some ''production''),
             c_sameSite = Some ''lax''\<rparr>
      in if NODE_ENV e \<noteq> Some ''production''
         then cookies_set response ''debug_token''
            \<lparr>c_value = ''exists'', c_path = Some ''/'', c_expires = None,
             c_maxAge = Some (7 * 24 * 60 * 60),
             c_httpOnly = Some False, c_secure = Some False, c_sameSite = None\<rparr>
         else response)"

definition POST_login ::
  "env \<Rightarrow> (json \<Rightarrow> document option outcome) \<Rightarrow> (json \<Rightarrow> json option \<Rightarrow> bool outcome) \<Rightarrow>
   (string \<Rightarrow> string outcome) \<Rightarrow> json outcome \<Rightarrow> response" where
  "POST_login e findByUsername comparePassword generateToken body =
     (case body of
        Thrown err \<Rightarrow> login_error
      | Returned JNull \<Rightarrow> login_error
      | Returned b \<Rightarrow>
          (let fields = (case b of JObj fs \<Rightarrow> fs | _ \<Rightarrow> []);
               username = map_of fields ''username'';
               password = map_of fields ''password''
           in if \<not> js_truthy username \<or> \<not> js_truthy password then
                NextResponse_json
                  (JObj [(''success'', JBool False), (''message'', JStr msg_login_required)]) 400
              else
                (case findByUsername (the username) of
                   Thrown err \<Rightarrow> login_error
                 | Returned None \<Rightarrow>
                     NextResponse_json
                       (JObj [(''success'', JBool False), (''message'', JStr msg_login_wrong)]) 401
                 | Returned (Some user) \<Rightarrow>
                     (case comparePassword (the password) (map_of user ''password'') of
                        Thrown err \<Rightarrow> login_error
                      | Returned isPasswordValid \<Rightarrow>
                          if \<not> isPasswordValid then
                            NextResponse_json
                              (JObj [(''success'', JBool False),
                                     (''message'', JStr msg_login_wrong)]) 401
                          else
                            (case map_of user ''_id'' of
                               Some (JStr uid) \<Rightarrow>
                                 (case generateToken uid of
                                    Thrown err \<Rightarrow> login_error
                                  | Returned token \<Rightarrow> login_success e user token)
                             | _ \<Rightarrow> login_error)))))"

section \<open>The route gate (\<open>middleware\<close>)\<close>

text \<open>
  The allow-list, element by element as the source lists it. (The source has no comma after
  its fourth and fifth elements; the seven origins are taken as the seven entries they are
  laid out to be.)
\<close>

definition allowedOrigins :: "string list" where
  "allowedOrigins =
     [''https://inal-hsc1.com'',
      ''https://www.inal-hsc1.com'',
      ''https://london-hsc.com'',
      ''https://www.london-hsc.com'',
      ''https://family-neon.vercel.app'',
      ''http://localhost:3000'',
      ''http://127.0.0.1:3000'']"

definition securityHeaders :: "(string \<times> string) list" where
  "securityHeaders =
     [(''X-Content-Type-Options'', ''nosniff''),
      (''X-Frame-Options'', ''DENY''),
      (''X-XSS-Protection'', ''1; mode=block''),
      (''Referrer-Policy'', ''strict-origin-when-cross-origin''),
      (''Permissions-Policy'', ''camera=(), microphone=(), geolocation=()'')]"

text \<open>\<open>response.headers.set(name, value)\<close>\<close>

definition headers_set :: "response \<Rightarrow> string \<Rightarrow> string \<Rightarrow> response" where
  "headers_set r name v = r\<lparr>res_headers := AList.update name v (res_headers r)\<rparr>"

definition setCorsHeaders :: "response \<Rightarrow> string \<Rightarrow> response" where
  "setCorsHeaders response origin =
     (let r1 = headers_set response ''Access-Control-Allow-Origin'' origin;
          r2 = headers_set r1 ''Access-Control-Allow-Methods'' ''GET, POST, PUT, DELETE, OPTIONS'';
          r3 = headers_set r2 ''Access-Control-Allow-Headers''
                 ''Content-Type, Authorization, X-Requested-With, Accept'';
          r4 = headers_set r3 ''Access-Control-Allow-Credentials'' ''true'';
          r5 = headers_set r4 ''Access-Control-Max-Age'' ''86400''
      in headers_set r5 ''Vary'' ''Origin'')"

text \<open>\<open>s.split(c)\<close> for a one-character separator: never empty, \<open>''.split(c)\<close> is \<open>['']\<close>.\<close>

fun split_on :: "char \<Rightarrow> string \<Rightarrow> string list" where
  "split_on c [] = [[]]"
| "split_on c (x # xs) =
     (if x = c then [] # split_on c xs
      else (case split_on c xs of
              w # ws \<Rightarrow> (x # w) # ws
            | [] \<Rightarrow> [[x]]))"

text \<open>\<open>xs[1]\<close>, which is \<open>undefined\<close> on a list shorter than two.\<close>

fun second :: "'a list \<Rightarrow> 'a option" where
  "second (a # b # rest) = Some b"
| "second other = None"

text \<open>
  \<open>getTokenFromRequest\<close>: the Authorization header when it starts with \<open>Bearer \<close>, else the
  cookie \<open>token\<close> when it is not empty, else the query parameter \<open>token\<close> (or \<open>null\<close>).
\<close>

definition getTokenFromRequest :: "request \<Rightarrow> string option" where
  "getTokenFromRequest request =
     (let authHeader = map_of (req_headers request) ''authorization'';
          cookie = map_of (req_cookies request) ''token'';
          tokenParam = map_of (url_searchParams (req_url request)) ''token''
      in case authHeader of
           Some h \<Rightarrow>
             if startsWith h ''Bearer '' then second (split_on CHR '' '' h)
             else if truthy cookie then cookie else tokenParam
         | None \<Rightarrow> if truthy cookie then cookie else tokenParam)"

definition isPublicPath :: "env \<Rightarrow> string \<Rightarrow> bool" where
  "isPublicPath e pathname =
     (let publicPaths =
            [''/'', ''/login'', ''/register'', ''/forgot-password'', ''/reset-password'',
             ''/api/auth'', ''/api/settings'', ''/api/public'',
             ''/_next'', ''/favicon.ico'', ''/icons'', ''/images'', ''/fonts'',
             ''/api/rates'', ''/api/markets'', ''/api/announcements''] @
            (if NODE_ENV e = Some ''development''
             then [''/api/__coverage__'', ''/__nextjs_original-stack-frame'', ''/_error'',
                   ''/_webpack'']
             else [])
      in list_ex (\<lambda>path. pathname = path \<or> startsWith pathname (path @ ''/'')) publicPaths)"

text \<open>The three ways the gate builds a response, and \<open>new URL('/login', request.url)\<close>.\<close>

definition NextResponse_new :: "json option \<Rightarrow> nat \<Rightarrow> response" where
  "NextResponse_new b st =
     \<lparr>res_kind = Plain, res_status = st, res_body = b, res_headers = [], res_cookies = []\<rparr>"

definition NextResponse_next :: response where
  "NextResponse_next =
     \<lparr>res_kind = Next, res_status = 200, res_body = None, res_headers = [], res_cookies = []\<rparr>"

definition NextResponse_redirect :: "url \<Rightarrow> response" where
  "NextResponse_redirect u =
     \<lparr>res_kind = Redirect u, res_status = 307, res_body = None, res_headers = [],
      res_cookies = []\<rparr>"

definition loginUrl_of :: "request \<Rightarrow> url" where
  "loginUrl_of request =
     \<lparr>url_base = url_base (req_url request), url_pathname = ''/login'', url_searchParams = []\<rparr>"

definition searchParams_set :: "url \<Rightarrow> string \<Rightarrow> string \<Rightarrow> url" where
  "searchParams_set u k v = u\<lparr>url_searchParams := AList.update k v (url_searchParams u)\<rparr>"

text \<open>\<open>request.headers.get('origin') || ''\<close>\<close>

definition origin_of :: "request \<Rightarrow> string" where
  "origin_of request =
     (case map_of (req_headers request) ''origin'' of None \<Rightarrow> '''' | Some h \<Rightarrow> h)"

text \<open>
  \<open>middleware\<close>. \<open>fetchVerify token\<close> is the call of \<open>fetch\<close> on \<open>/api/auth/verify\<close> with the
  header \<open>Authorization: Bearer token\<close>: it returns \<open>verifyResponse.ok\<close>, or throws.

  In the source the \<open>try\<close> statement returns on each of its paths (the redirect, the
  pass-through after it, and the pass-through of \<open>catch\<close>), so the statements that follow it
  in the function body (a second origin check answering 403, the loop that sets
  \<open>securityHeaders\<close>, a second redirect) are never executed; the function ends here.
  On a verification that is not \<open>ok\<close> the source sets the clearing cookie on \<open>response\<close>
  and then returns a new redirect response.
\<close>

definition middleware :: "env \<Rightarrow> (string \<Rightarrow> bool outcome) \<Rightarrow> request \<Rightarrow> response" where
  "middleware e fetchVerify request =
     (let pathname = url_pathname (req_url request);
          origin = origin_of request;
          isAllowedOrigin =
            (origin \<in> set allowedOrigins \<or>
             (NODE_ENV e = Some ''development'' \<and> startsWith origin ''http://localhost''))
      in if req_method request = ''OPTIONS'' then
           setCorsHeaders (NextResponse_new None 204) origin
         else
           (let response =
                  (if isAllowedOrigin then setCorsHeaders NextResponse_next origin
                   else NextResponse_next)
            in if isPublicPath e pathname \<or> startsWith pathname ''/_next/'' \<or>
                  startsWith pathname ''/static/'' \<or> startsWith pathname ''/public/'' \<or>
                  pathname = ''/favicon.ico''
               then response
               else
                 (let token = getTokenFromRequest request
                  in if startsWith pathname ''/api/'' then response
                     else if \<not> truthy token then
                       (if \<not> startsWith pathname ''/login'' then
                          NextResponse_redirect
                            (searchParams_set (loginUrl_of request) ''returnUrl'' pathname)
                        else response)
                     else if startsWith pathname ''/login'' \<or> startsWith pathname ''/auth/''
                       then response
                     else
                       (case fetchVerify (the token) of
                          Returned ok \<Rightarrow>
                            if \<not> ok then
                              (let loginUrl =
                                     searchParams_set
                                       (searchParams_set (loginUrl_of request)
                                          ''returnUrl'' pathname)
                                       ''expired'' ''true'';
                                   response = cookies_set response ''token''
                                     \<lparr>c_value = '''', c_path = Some ''/'', c_expires = Some 0,
                                      c_maxAge = None, c_httpOnly = None, c_secure = None,
                                      c_sameSite = None\<rparr>
                               in NextResponse_redirect loginUrl)
                            else response
                        | Thrown err \<Rightarrow> response))))"

section \<open>The client session hook (\<open>useAuthStandalone\<close>)\<close>

definition USER_STORAGE_KEY :: string where
  "USER_STORAGE_KEY = ''auth_user''"

definition LAST_CHECKED_KEY :: string where
  "LAST_CHECKED_KEY = ''auth_last_checked''"

definition AUTH_CACHE_KEY :: string where
  "AUTH_CACHE_KEY = ''auth_user_cache''"

text \<open>
  The hook's state: the React state variables \<open>user\<close>, \<open>isLoading\<close> and \<open>lastChecked\<close>, the
  browser's \<open>localStorage\<close>, and the path last given to \<open>router.push\<close>. A stored string is
  held as the JSON value it is the text of. Writes to \<open>localStorage\<close> are taken to succeed.
\<close>

record client =
  cl_user :: "json option"
  cl_isLoading :: bool
  cl_lastChecked :: int
  cl_localStorage :: "string \<rightharpoonup> json"
  cl_pushed :: "string option"

text \<open>
  What \<open>fetch\<close> followed by \<open>response.json()\<close> gives: \<open>fetch\<close> throws (a network-level
  error), or there is a response with its \<open>ok\<close> flag whose body parses to a value or whose
  parsing throws.
\<close>

type_synonym fetched = "(bool \<times> json outcome) outcome"

text \<open>
  \<open>data.f\<close> on a parsed body: a \<open>TypeError\<close> on \<open>null\<close>, the field of an object, \<open>undefined\<close>
  on any other value.
\<close>

fun js_get :: "json \<Rightarrow> string \<Rightarrow> json option outcome" where
  "js_get JNull f = Thrown (ErrorObj ''TypeError'')"
| "js_get (JObj fs) f = Returned (map_of fs f)"
| "js_get other f = Returned None"

text \<open>
  \<open>setAuthCache(userData)\<close>, in the browser; \<open>now\<close> is \<open>Date.now()\<close>.
\<close>

definition setAuthCache :: "json option \<Rightarrow> int \<Rightarrow> (string \<rightharpoonup> json) \<Rightarrow> (string \<rightharpoonup> json)" where
  "setAuthCache userData now storage =
     (if js_truthy userData
      then storage(AUTH_CACHE_KEY \<mapsto> JObj [(''data'', the userData), (''timestamp'', JNum now)])
      else storage(AUTH_CACHE_KEY := None))"

text \<open>
  \<open>checkAuth(force)\<close>. \<open>currentTime\<close> is \<open>new Date().getTime()\<close> read at entry. The body of
  \<open>try\<close> reads a field of \<open>data\<close> on both of its branches (\<open>data.success\<close>, and \<open>data.message\<close>
  in the argument of \<open>debugLog\<close>), so a body that parses to \<open>null\<close> ends in \<open>catch\<close> like a
  network error. \<open>finally\<close> runs on every path that got past the early return.
\<close>

definition checkAuth :: "bool \<Rightarrow> fetched \<Rightarrow> int \<Rightarrow> client \<Rightarrow> client" where
  "checkAuth force fetched currentTime s =
     (let cacheTimeout = 5 * 60 * 1000;
          lastChecked = cl_lastChecked s
      in if \<not> force \<and> lastChecked \<noteq> 0 \<and> currentTime - lastChecked < cacheTimeout then s
         else
           (let s1 = (if lastChecked = 0 then s\<lparr>cl_isLoading := True\<rparr> else s);
                s2 =
                  (case fetched of
                     Thrown err \<Rightarrow> s1
                   | Returned (ok, Thrown err) \<Rightarrow> s1
                   | Returned (ok, Returned data) \<Rightarrow>
                       (case js_get data ''success'' of
                          Thrown err \<Rightarrow> s1
                        | Returned success \<Rightarrow>
                            if ok \<and> js_truthy success then
                              (case js_get data ''user'' of
                                 Thrown err \<Rightarrow> s1
                               | Returned u \<Rightarrow>
                                   s1\<lparr>cl_user := u,
                                      cl_localStorage := (cl_localStorage s1)
                                        (USER_STORAGE_KEY \<mapsto>
                                           JObj (optField ''data'' u @
                                                 [(''timestamp'', JNum currentTime)]))\<rparr>)
                            else
                              s1\<lparr>cl_user := None,
                                 cl_localStorage := (cl_localStorage s1)
                                   (USER_STORAGE_KEY := None)\<rparr>))
            in s2\<lparr>cl_isLoading := False,
                  cl_lastChecked := currentTime,
                  cl_localStorage := (cl_localStorage s2)
                    (LAST_CHECKED_KEY \<mapsto> JNum currentTime)\<rparr>))"

text \<open>
  \<open>login(username, password)\<close>: the result object's \<open>success\<close> flag and the new state.
  \<open>now\<close> is the \<open>Date.now()\<close> of \<open>setAuthCache\<close>.
\<close>

definition login :: "fetched \<Rightarrow> int \<Rightarrow> client \<Rightarrow> bool \<times> client" where
  "login fetched now s =
     (let s1 = s\<lparr>cl_isLoading := True\<rparr>;
          failed = (False, s1\<lparr>cl_isLoading := False\<rparr>)
      in case fetched of
           Thrown err \<Rightarrow> failed
         | Returned (ok, Thrown err) \<Rightarrow> failed
         | Returned (ok, Returned data) \<Rightarrow>
             (case js_get data ''success'' of
                Thrown err \<Rightarrow> failed
              | Returned success \<Rightarrow>
                  if js_truthy success then
                    (case js_get data ''user'' of
                       Thrown err \<Rightarrow> failed
                     | Returned u \<Rightarrow>
                         (True,
                          s1\<lparr>cl_user := u,
                             cl_localStorage := setAuthCache u now (cl_localStorage s1),
                             cl_isLoading := False\<rparr>))
                  else failed))"

text \<open>
  \<open>logout()\<close>: the local state is cleared first; whether the server call returns or throws,
  the router is sent to \<open>/login\<close>.
\<close>

definition logout :: "fetched \<Rightarrow> int \<Rightarrow> client \<Rightarrow> client" where
  "logout fetched now s =
     s\<lparr>cl_user := None,
       cl_lastChecked := 0,
       cl_localStorage := setAuthCache None now (cl_localStorage s),
       cl_pushed := Some ''/login''\<rparr>"

section \<open>The token codec\<close>

text \<open>
  Modelled from the spec: \<open>parseToken\<close> of the module \<open>@/lib/auth\<close>, which is not among the
  sources. The spec's token is an opaque string that encodes the subject and the time of
  issue and is signed with a server secret, and its \<open>parse\<close> "verifies signature; fails
  (treated as invalid, not a crash) on malformed input, signature mismatch, or decoding
  error". \<open>decode\<close> reads the payload and the signature off the string (\<open>None\<close> on a
  malformed one) and \<open>sign\<close> is the signature the server's secret gives a payload.
\<close>

definition parseToken_spec ::
  "(string \<Rightarrow> (tokenData \<times> string) option) \<Rightarrow> (tokenData \<Rightarrow> string) \<Rightarrow>
   string \<Rightarrow> tokenData option outcome" where
  "parseToken_spec decode sign token =
     (case decode token of
        None \<Rightarrow> Returned None
      | Some (td, signature) \<Rightarrow>
          if signature = sign td then Returned (Some td) else Returned None)"

section \<open>Concrete requests, stores and collaborators for the examples\<close>

definition ex_env_production :: env where
  "ex_env_production = \<lparr>NODE_ENV = Some ''production'', DEBUG_AUTH = None\<rparr>"

definition ex_env_production_debug :: env where
  "ex_env_production_debug = \<lparr>NODE_ENV = Some ''production'', DEBUG_AUTH = Some ''true''\<rparr>"

definition ex_uid :: string where
  "ex_uid = ''65a1b2c3d4e5f60718293a4b''"

definition ex_user :: document where
  "ex_user =
     [(''_id'', JStr ex_uid), (''username'', JStr ''u1''),
      (''password'', JStr ''$2a$10$hash''), (''role'', JStr ''user'')]"

text \<open>A store that holds the one user, and a store whose connection is refused.\<close>

definition ex_findOne :: "string \<Rightarrow> document option outcome" where
  "ex_findOne uid = (if uid = ex_uid then Returned (Some ex_user) else Returned None)"

definition ex_findOne_down :: "string \<Rightarrow> document option outcome" where
  "ex_findOne_down uid = Thrown (ErrorObj ''connect ECONNREFUSED 127.0.0.1:27017'')"

definition ex_findByUsername :: "json \<Rightarrow> document option outcome" where
  "ex_findByUsername name = (if name = JStr ''u1'' then Returned (Some ex_user) else Returned None)"

definition ex_comparePassword :: "json \<Rightarrow> json option \<Rightarrow> bool outcome" where
  "ex_comparePassword pw hash =
     Returned (pw = JStr ''Test@12345'' \<and> hash = Some (JStr ''$2a$10$hash''))"

text \<open>A token issuer and its parser: tokens issued at time 1000 for the given user.\<close>

definition ex_generateToken :: "string \<Rightarrow> string outcome" where
  "ex_generateToken uid = Returned (''tok:'' @ uid)"

definition ex_parseToken :: "string \<Rightarrow> tokenData option outcome" where
  "ex_parseToken t =
     (if startsWith t ''tok:'' then Returned (Some \<lparr>userId = drop 4 t, timestamp = 1000\<rparr>)
      else Returned None)"

definition ex_token :: string where
  "ex_token = ''tok:65a1b2c3d4e5f60718293a4b''"

text \<open>A decoder and a signature for the spec's codec, and a token with a forged signature.\<close>

definition ex_sign :: "tokenData \<Rightarrow> string" where
  "ex_sign td = ''mac-'' @ userId td"

definition ex_decode :: "string \<Rightarrow> (tokenData \<times> string) option" where
  "ex_decode t =
     (if t = ''old.forged'' then Some (\<lparr>userId = ex_uid, timestamp = 0\<rparr>, ''forged'')
      else if t = ''old.signed'' then Some (\<lparr>userId = ex_uid, timestamp = 0\<rparr>, ''mac-'' @ ex_uid)
      else None)"

definition ex_request ::
  "string \<Rightarrow> string \<Rightarrow> (string \<times> string) list \<Rightarrow> (string \<times> string) list \<Rightarrow> request" where
  "ex_request m pathname headers cookies =
     \<lparr>req_method = m,
      req_url = \<lparr>url_base = ''https://london-hsc.com'', url_pathname = pathname,
                 url_searchParams = []\<rparr>,
      req_headers = headers,
      req_cookies = cookies\<rparr>"

text \<open>A handler that throws an error whose message holds internal detail.\<close>

definition ex_failing_handler :: "request \<Rightarrow> document \<Rightarrow> response outcome" where
  "ex_failing_handler request user =
     Thrown (ErrorObj ''MongoServerError: bad auth for mongodb://admin:s3cr3t@db'')"

text \<open>Verification endpoints as the gate sees them: one that rejects, one that is down.\<close>

definition ex_verify_rejects :: "string \<Rightarrow> bool outcome" where
  "ex_verify_rejects token = Returned False"

definition ex_verify_down :: "string \<Rightarrow> bool outcome" where
  "ex_verify_down token = Thrown (ErrorObj ''fetch failed'')"

text \<open>The hook's state when the provider mounts.\<close>

definition ex_client_initial :: client where
  "ex_client_initial =
     \<lparr>cl_user = None, cl_isLoading = True, cl_lastChecked = 0,
      cl_localStorage = Map.empty, cl_pushed = None\<rparr>"

definition ex_public_user :: json where
  "ex_public_user = JObj [(''id'', JStr ex_uid), (''username'', JStr ''u1''), (''role'', JStr ''user'')]"

section \<open>Properties of the authenticator and the authorizer\<close>

lemma withAuth_rejects:
  "authenticateRequest parseToken findOne now request = auth_fail msg \<Longrightarrow> msg \<noteq> [] \<Longrightarrow>
   withAuth e parseToken findOne handler roles now request =
     NextResponse_json
       (JObj [(''success'', JBool False), (''message'', JStr (''Unauthorized: '' @ msg))]) 401"
  by (simp add: withAuth_def auth_fail_def)

text \<open>
  C1 (as the code has it). For every request whose cookie token parses and is unexpired but
  whose user-store lookup throws, \<open>authenticateRequest\<close> fails with the error
  \<open>Database error during authentication\<close>, which is not the error of an absent user, and
  \<open>withAuth\<close> answers it with status 401 and the message
  \<open>Unauthorized: Database error during authentication\<close>, like every other authentication
  error; the handler is not run and no 500 is produced.
\<close>

theorem store_fault_is_distinct_and_answered_401:
  assumes "map_of (req_cookies request) ''token'' = Some token" and "token \<noteq> []"
    and "parseToken token = Returned (Some td)"
    and "now - timestamp td \<le> TOKEN_MAX_AGE_MS"
    and "findOne (userId td) = Thrown dbError"
  shows "authenticateRequest parseToken findOne now request =
           auth_fail ''Database error during authentication'' \<and>
         auth_fail ''Database error during authentication'' \<noteq> auth_fail ''User not found'' \<and>
         withAuth e parseToken findOne handler roles now request =
           NextResponse_json
             (JObj [(''success'', JBool False),
                    (''message'', JStr ''Unauthorized: Database error during authentication'')])
             401"
proof -
  have a: "authenticateRequest parseToken findOne now request =
             auth_fail ''Database error during authentication''"
    using assms by (simp add: authenticateRequest_def)
  have b: "auth_fail ''Database error during authentication'' \<noteq> auth_fail ''User not found''"
    by (simp add: auth_fail_def)
  from withAuth_rejects [OF a] a b show ?thesis by simp
qed

theorem store_fault_is_distinct_and_answered_401_witness:
  "map_of (req_cookies (ex_request ''GET'' ''/api/auth/me'' [] [(''token'', ex_token)])) ''token''
     = Some ex_token \<and>
   ex_token \<noteq> [] \<and>
   ex_parseToken ex_token = Returned (Some \<lparr>userId = ex_uid, timestamp = 1000\<rparr>) \<and>
   2000 - timestamp \<lparr>userId = ex_uid, timestamp = 1000\<rparr> \<le> TOKEN_MAX_AGE_MS \<and>
   ex_findOne_down (userId \<lparr>userId = ex_uid, timestamp = 1000\<rparr>)
     = Thrown (ErrorObj ''connect ECONNREFUSED 127.0.0.1:27017'') \<and>
   authenticateRequest ex_parseToken ex_findOne_down 2000
       (ex_request ''GET'' ''/api/auth/me'' [] [(''token'', ex_token)])
     = auth_fail ''Database error during authentication'' \<and>
   res_status (withAuth ex_env_production ex_parseToken ex_findOne_down (me_handler ''t'')
       [''user''] 2000 (ex_request ''GET'' ''/api/auth/me'' [] [(''token'', ex_token)])) = 401"
proof -
  have h1: "map_of (req_cookies (ex_request ''GET'' ''/api/auth/me'' [] [(''token'', ex_token)]))
              ''token'' = Some ex_token"
    by (simp add: ex_request_def)
  have h2: "ex_token \<noteq> []" by (simp add: ex_token_def)
  have h3: "ex_parseToken ex_token = Returned (Some \<lparr>userId = ex_uid, timestamp = 1000\<rparr>)"
    by (simp add: ex_parseToken_def ex_token_def ex_uid_def)
  have h4: "2000 - timestamp \<lparr>userId = ex_uid, timestamp = 1000\<rparr> \<le> TOKEN_MAX_AGE_MS"
    by (simp add: TOKEN_MAX_AGE_MS_def)
  have h5: "ex_findOne_down (userId \<lparr>userId = ex_uid, timestamp = 1000\<rparr>)
              = Thrown (ErrorObj ''connect ECONNREFUSED 127.0.0.1:27017'')"
    by (simp add: ex_findOne_down_def)
  from store_fault_is_distinct_and_answered_401
      [where parseToken = ex_parseToken and findOne = ex_findOne_down and now = 2000
         and e = ex_env_production and handler = "me_handler ''t''" and roles = "[''user'']",
       OF h1 h2 h3 h4 h5]
  show ?thesis using h1 h2 h3 h4 h5 by (simp add: NextResponse_json_def)
qed

text \<open>
  C1 (as the spec states it) fails: with the store down, the authorizer's status for a
  request with a good token is 401, not 500.
\<close>

theorem store_fault_not_500_counterexample:
  "ex_parseToken ex_token = Returned (Some \<lparr>userId = ex_uid, timestamp = 1000\<rparr>) \<and>
   2000 - 1000 \<le> TOKEN_MAX_AGE_MS \<and>
   ex_findOne_down ex_uid = Thrown (ErrorObj ''connect ECONNREFUSED 127.0.0.1:27017'') \<and>
   res_status (withAuth ex_env_production ex_parseToken ex_findOne_down (me_handler ''t'')
       [''user''] 2000 (ex_request ''GET'' ''/api/auth/me'' [] [(''token'', ex_token)])) = 401 \<and>
   res_status (withAuth ex_env_production ex_parseToken ex_findOne_down (me_handler ''t'')
       [''user''] 2000 (ex_request ''GET'' ''/api/auth/me'' [] [(''token'', ex_token)])) \<noteq> 500"
  by (simp add: withAuth_def authenticateRequest_def ex_request_def ex_token_def
      ex_parseToken_def ex_uid_def ex_findOne_down_def TOKEN_MAX_AGE_MS_def auth_fail_def
      NextResponse_json_def)

lemma startsWith_iff_append: "startsWith s p \<longleftrightarrow> (\<exists>rest. s = p @ rest)"
  by (induction s p rule: startsWith.induct) auto

lemma split_on_head: "\<exists>ws. split_on c t = takeWhile (\<lambda>x. x \<noteq> c) t # ws"
  by (induction t) (auto split: list.splits)

lemma second_split_on_Bearer:
  assumes "startsWith h ''Bearer ''"
  shows "second (split_on CHR '' '' h) = Some (takeWhile (\<lambda>x. x \<noteq> CHR '' '') (drop 7 h))"
proof -
  from assms obtain rest where h: "h = ''Bearer '' @ rest"
    by (auto simp add: startsWith_iff_append)
  obtain ws where "split_on CHR '' '' rest = takeWhile (\<lambda>x. x \<noteq> CHR '' '') rest # ws"
    using split_on_head by blast
  then show ?thesis by (simp add: h)
qed

text \<open>
  C3 (as the code has it). \<open>authenticateRequest\<close> takes the token from the cookie \<open>token\<close>
  only: its result does not change with the request's headers or URL, and a request without
  a non-empty token cookie fails with \<open>No token provided\<close> whatever its Authorization
  header holds. The order Bearer header, then cookie, then query parameter is that of the
  route gate's \<open>getTokenFromRequest\<close>, for every request: an Authorization header that
  starts with \<open>Bearer \<close> gives the text after it up to the next space; any other request
  gives the cookie \<open>token\<close> when it is not empty, and else the query parameter \<open>token\<close>
  (or \<open>null\<close>).
\<close>

theorem authenticator_reads_cookie_only:
  "authenticateRequest parseToken findOne now (request\<lparr>req_headers := hs, req_url := u\<rparr>) =
     authenticateRequest parseToken findOne now request \<and>
   (\<not> truthy (map_of (req_cookies request) ''token'') \<longrightarrow>
      authenticateRequest parseToken findOne now request = auth_fail ''No token provided'') \<and>
   getTokenFromRequest request =
     (case map_of (req_headers request) ''authorization'' of
        Some h \<Rightarrow>
          if startsWith h ''Bearer ''
          then Some (takeWhile (\<lambda>x. x \<noteq> CHR '' '') (drop 7 h))
          else if truthy (map_of (req_cookies request) ''token'')
               then map_of (req_cookies request) ''token''
               else map_of (url_searchParams (req_url request)) ''token''
      | None \<Rightarrow>
          if truthy (map_of (req_cookies request) ''token'')
          then map_of (req_cookies request) ''token''
          else map_of (url_searchParams (req_url request)) ''token'')"
proof -
  have a: "authenticateRequest parseToken findOne now (request\<lparr>req_headers := hs, req_url := u\<rparr>) =
             authenticateRequest parseToken findOne now request"
    by (simp add: authenticateRequest_def)
  have b: "\<not> truthy (map_of (req_cookies request) ''token'') \<longrightarrow>
             authenticateRequest parseToken findOne now request = auth_fail ''No token provided''"
    by (cases "map_of (req_cookies request) ''token''") (simp_all add: authenticateRequest_def)
  have c: "getTokenFromRequest request =
     (case map_of (req_headers request) ''authorization'' of
        Some h \<Rightarrow>
          if startsWith h ''Bearer ''
          then Some (takeWhile (\<lambda>x. x \<noteq> CHR '' '') (drop 7 h))
          else if truthy (map_of (req_cookies request) ''token'')
               then map_of (req_cookies request) ''token''
               else map_of (url_searchParams (req_url request)) ''token''
      | None \<Rightarrow>
          if truthy (map_of (req_cookies request) ''token'')
          then map_of (req_cookies request) ''token''
          else map_of (url_searchParams (req_url request)) ''token'')"
    by (simp add: getTokenFromRequest_def second_split_on_Bearer split: option.splits)
  from a b c show ?thesis by blast
qed

theorem authenticator_reads_cookie_only_witness:
  "\<not> truthy (map_of (req_cookies
       (ex_request ''GET'' ''/api/auth/me'' [(''authorization'', ''Bearer '' @ ex_token)] []))
       ''token'') \<and>
   authenticateRequest ex_parseToken ex_findOne 2000
       (ex_request ''GET'' ''/api/auth/me'' [(''authorization'', ''Bearer '' @ ex_token)] [])
     = auth_fail ''No token provided'' \<and>
   getTokenFromRequest
       (ex_request ''GET'' ''/api/auth/me'' [(''authorization'', ''Bearer '' @ ex_token)] [])
     = Some ex_token \<and>
   getTokenFromRequest
       (ex_request ''GET'' ''/dashboard''
          [(''authorization'', ''Bearer '' @ ex_token)] [(''token'', ''from-cookie'')])
     = Some ex_token \<and>
   getTokenFromRequest
       (ex_request ''GET'' ''/dashboard''
          [(''authorization'', ''Basic abc'')] [(''token'', ''from-cookie'')])
     = Some ''from-cookie'' \<and>
   getTokenFromRequest (ex_request ''GET'' ''/dashboard'' [] [(''token'', ''from-cookie'')])
     = Some ''from-cookie'' \<and>
   getTokenFromRequest
       ((ex_request ''GET'' ''/dashboard'' [(''authorization'', ''Basic abc'')] [(''token'', '''')])
          \<lparr>req_url := \<lparr>url_base = ''https://london-hsc.com'', url_pathname = ''/dashboard'',
                       url_searchParams = [(''token'', ''from-query'')]\<rparr>\<rparr>)
     = Some ''from-query''"
proof -
  let ?r = "ex_request ''GET'' ''/api/auth/me'' [(''authorization'', ''Bearer '' @ ex_token)] []"
  let ?bc = "ex_request ''GET'' ''/dashboard''
               [(''authorization'', ''Bearer '' @ ex_token)] [(''token'', ''from-cookie'')]"
  let ?xc = "ex_request ''GET'' ''/dashboard''
               [(''authorization'', ''Basic abc'')] [(''token'', ''from-cookie'')]"
  let ?c = "ex_request ''GET'' ''/dashboard'' [] [(''token'', ''from-cookie'')]"
  let ?q = "(ex_request ''GET'' ''/dashboard'' [(''authorization'', ''Basic abc'')]
               [(''token'', '''')])
              \<lparr>req_url := \<lparr>url_base = ''https://london-hsc.com'', url_pathname = ''/dashboard'',
                           url_searchParams = [(''token'', ''from-query'')]\<rparr>\<rparr>"
  have h1: "\<not> truthy (map_of (req_cookies ?r) ''token'')"
    by (simp add: ex_request_def)
  have a: "authenticateRequest ex_parseToken ex_findOne 2000 ?r = auth_fail ''No token provided''"
    using authenticator_reads_cookie_only
            [where request = ?r and parseToken = ex_parseToken and findOne = ex_findOne
               and now = 2000] h1
    by blast
  have b: "getTokenFromRequest ?r = Some ex_token"
    using authenticator_reads_cookie_only [where request = ?r]
    by (simp add: ex_request_def ex_token_def)
  have c: "getTokenFromRequest ?bc = Some ex_token"
    using authenticator_reads_cookie_only [where request = ?bc]
    by (simp add: ex_request_def ex_token_def)
  have d: "getTokenFromRequest ?xc = Some ''from-cookie''"
    using authenticator_reads_cookie_only [where request = ?xc]
    by (simp add: ex_request_def)
  have e: "getTokenFromRequest ?c = Some ''from-cookie''"
    using authenticator_reads_cookie_only [where request = ?c]
    by (simp add: ex_request_def)
  have f: "getTokenFromRequest ?q = Some ''from-query''"
    using authenticator_reads_cookie_only [where request = ?q]
    by (simp add: ex_request_def)
  from h1 a b c d e f show ?thesis by blast
qed

text \<open>
  C3 (as the spec states it) fails: a request that carries a token that is valid (it
  parses, is unexpired and names a stored user) in the Bearer header and no cookie is not
  authenticated.
\<close>

theorem bearer_only_not_authenticated_counterexample:
  "ex_parseToken ex_token = Returned (Some \<lparr>userId = ex_uid, timestamp = 1000\<rparr>) \<and>
   ex_findOne ex_uid = Returned (Some ex_user) \<and>
   2000 - 1000 \<le> TOKEN_MAX_AGE_MS \<and>
   getTokenFromRequest
       (ex_request ''GET'' ''/api/auth/me'' [(''authorization'', ''Bearer '' @ ex_token)] [])
     = Some ex_token \<and>
   authenticateRequest ex_parseToken ex_findOne 2000
       (ex_request ''GET'' ''/api/auth/me'' [(''authorization'', ''Bearer '' @ ex_token)] [])
     = \<lparr>auth_user = None, auth_error = Some ''No token provided''\<rparr> \<and>
   res_status (GET_me ex_env_production ex_parseToken ex_findOne ''t'' 2000
       (ex_request ''GET'' ''/api/auth/me'' [(''authorization'', ''Bearer '' @ ex_token)] []))
     = 401"
  by (simp add: authenticateRequest_def getTokenFromRequest_def ex_request_def ex_token_def
      ex_parseToken_def ex_uid_def ex_findOne_def TOKEN_MAX_AGE_MS_def auth_fail_def
      GET_me_def withAuth_def NextResponse_json_def)

text \<open>
  C4, on the code. When the request is authenticated and authorized and the wrapped handler
  throws, \<open>withAuth\<close> answers 500. In a production environment the body is exactly
  \<open>{ success: false, message: 'Internal server error' }\<close> when \<open>DEBUG_AUTH\<close> is not
  \<open>'true'\<close>; when it is, the body also carries the \<open>_debug\<close> object with the message of
  the handler's error and the path, although the comments of the source at that place say
  that sensitive information is not exposed and that the detail is returned in the
  development environment only.
\<close>

theorem handler_error_body_in_production:
  assumes "authenticateRequest parseToken findOne now request =
             \<lparr>auth_user = Some user, auth_error = None\<rparr>"
    and "roles = [] \<or> rolesInclude roles (map_of user ''role'')"
    and "handler request user = Thrown err"
    and "NODE_ENV e = Some ''production''"
  shows "withAuth e parseToken findOne handler roles now request =
           NextResponse_json
             (JObj ([(''success'', JBool False), (''message'', JStr ''Internal server error'')] @
                    (if DEBUG_AUTH e = Some ''true''
                     then [(''_debug'',
                            JObj [(''error'', JStr (errorMessage err)),
                                  (''path'', JStr (url_without_query (req_url request)))])]
                     else [])))
             500"
  using assms by (auto simp add: withAuth_def handlerErrorBody_def debugEnabled_def)

lemma ex_authenticated:
  "authenticateRequest ex_parseToken ex_findOne 2000
       (ex_request m path hs [(''token'', ex_token)])
     = \<lparr>auth_user = Some (withoutPassword ex_user), auth_error = None\<rparr>"
  by (simp add: authenticateRequest_def ex_request_def ex_token_def ex_parseToken_def
      ex_uid_def ex_findOne_def TOKEN_MAX_AGE_MS_def ex_user_def)

lemma ex_request_url:
  "req_url (ex_request m path hs cs) =
     \<lparr>url_base = ''https://london-hsc.com'', url_pathname = path, url_searchParams = []\<rparr>"
  by (simp add: ex_request_def)

lemma ex_role: "rolesInclude [''user''] (map_of (withoutPassword ex_user) ''role'')"
  by (simp add: withoutPassword_def ex_user_def)

theorem handler_error_body_in_production_witness:
  "authenticateRequest ex_parseToken ex_findOne 2000
       (ex_request ''GET'' ''/api/deposits'' [] [(''token'', ex_token)])
     = \<lparr>auth_user = Some (withoutPassword ex_user), auth_error = None\<rparr> \<and>
   rolesInclude [''user''] (map_of (withoutPassword ex_user) ''role'') \<and>
   ex_failing_handler (ex_request ''GET'' ''/api/deposits'' [] [(''token'', ex_token)])
       (withoutPassword ex_user)
     = Thrown (ErrorObj ''MongoServerError: bad auth for mongodb://admin:s3cr3t@db'') \<and>
   NODE_ENV ex_env_production_debug = Some ''production'' \<and>
   DEBUG_AUTH ex_env_production_debug = Some ''true'' \<and>
   withAuth ex_env_production_debug ex_parseToken ex_findOne ex_failing_handler [''user''] 2000
       (ex_request ''GET'' ''/api/deposits'' [] [(''token'', ex_token)])
     = NextResponse_json
         (JObj [(''success'', JBool False), (''message'', JStr ''Internal server error''),
                (''_debug'',
                 JObj [(''error'',
                        JStr ''MongoServerError: bad auth for mongodb://admin:s3cr3t@db''),
                       (''path'', JStr ''https://london-hsc.com/api/deposits'')])])
         500 \<and>
   NODE_ENV ex_env_production = Some ''production'' \<and>
   DEBUG_AUTH ex_env_production = None \<and>
   withAuth ex_env_production ex_parseToken ex_findOne ex_failing_handler [''user''] 2000
       (ex_request ''GET'' ''/api/deposits'' [] [(''token'', ex_token)])
     = NextResponse_json
         (JObj [(''success'', JBool False), (''message'', JStr ''Internal server error'')]) 500"
proof -
  let ?r = "ex_request ''GET'' ''/api/deposits'' [] [(''token'', ex_token)]"
  have h1: "authenticateRequest ex_parseToken ex_findOne 2000 ?r =
              \<lparr>auth_user = Some (withoutPassword ex_user), auth_error = None\<rparr>"
    by (rule ex_authenticated)
  have h2: "[''user''] = [] \<or> rolesInclude [''user''] (map_of (withoutPassword ex_user) ''role'')"
    using ex_role by simp
  have h3: "ex_failing_handler ?r (withoutPassword ex_user) =
              Thrown (ErrorObj ''MongoServerError: bad auth for mongodb://admin:s3cr3t@db'')"
    by (simp add: ex_failing_handler_def)
  have p1: "NODE_ENV ex_env_production = Some ''production''"
    and p2: "DEBUG_AUTH ex_env_production = None"
    by (simp_all add: ex_env_production_def)
  have d1: "NODE_ENV ex_env_production_debug = Some ''production''"
    and d2: "DEBUG_AUTH ex_env_production_debug = Some ''true''"
    by (simp_all add: ex_env_production_debug_def)
  from handler_error_body_in_production
         [where parseToken = ex_parseToken and findOne = ex_findOne and now = 2000
            and handler = ex_failing_handler and roles = "[''user'']"
            and e = ex_env_production_debug, OF h1 h2 h3 d1]
  have leak: "withAuth ex_env_production_debug ex_parseToken ex_findOne ex_failing_handler
                [''user''] 2000 ?r
              = NextResponse_json
                  (JObj [(''success'', JBool False), (''message'', JStr ''Internal server error''),
                         (''_debug'',
                          JObj [(''error'',
                                 JStr ''MongoServerError: bad auth for mongodb://admin:s3cr3t@db''),
                                (''path'', JStr ''https://london-hsc.com/api/deposits'')])])
                  500"
    by (simp add: d2 url_without_query_def ex_request_url)
  from handler_error_body_in_production
         [where parseToken = ex_parseToken and findOne = ex_findOne and now = 2000
            and handler = ex_failing_handler and roles = "[''user'']"
            and e = ex_env_production, OF h1 h2 h3 p1]
  have clean: "withAuth ex_env_production ex_parseToken ex_findOne ex_failing_handler
                 [''user''] 2000 ?r
               = NextResponse_json
                   (JObj [(''success'', JBool False), (''message'', JStr ''Internal server error'')])
                   500"
    by (simp add: p2)
  from h1 h3 ex_role p1 p2 d1 d2 leak clean show ?thesis by blast
qed

text \<open>
  C5 (as the code has it, with the spec's codec). A token that decodes to a time of issue
  more than seven days before now fails with \<open>Token expired\<close> when its signature
  verifies, whatever the user store holds, and with \<open>Invalid token format\<close> when it does
  not: the signature is checked, inside \<open>parseToken\<close>, before the age.
\<close>

theorem old_token_expired_when_signature_verifies:
  assumes "map_of (req_cookies request) ''token'' = Some token" and "token \<noteq> []"
    and "decode token = Some (td, signature)"
    and "now - timestamp td > TOKEN_MAX_AGE_MS"
  shows "authenticateRequest (parseToken_spec decode sign) findOne now request =
           (if signature = sign td then auth_fail ''Token expired''
            else auth_fail ''Invalid token format'')"
  using assms by (simp add: authenticateRequest_def parseToken_spec_def)

theorem old_token_expired_when_signature_verifies_witness:
  "map_of (req_cookies (ex_request ''GET'' ''/api/auth/me'' [] [(''token'', ''old.signed'')]))
       ''token'' = Some ''old.signed'' \<and>
   ''old.signed'' \<noteq> [] \<and>
   ex_decode ''old.signed'' = Some (\<lparr>userId = ex_uid, timestamp = 0\<rparr>, ''mac-'' @ ex_uid) \<and>
   700000000 - timestamp \<lparr>userId = ex_uid, timestamp = 0\<rparr> > TOKEN_MAX_AGE_MS \<and>
   ''mac-'' @ ex_uid = ex_sign \<lparr>userId = ex_uid, timestamp = 0\<rparr> \<and>
   authenticateRequest (parseToken_spec ex_decode ex_sign) ex_findOne 700000000
       (ex_request ''GET'' ''/api/auth/me'' [] [(''token'', ''old.signed'')])
     = auth_fail ''Token expired''"
proof -
  let ?r = "ex_request ''GET'' ''/api/auth/me'' [] [(''token'', ''old.signed'')]"
  let ?td = "\<lparr>userId = ex_uid, timestamp = 0\<rparr>"
  have h1: "map_of (req_cookies ?r) ''token'' = Some ''old.signed''"
    by (simp add: ex_request_def)
  have h2: "''old.signed'' \<noteq> []" by simp
  have h3: "ex_decode ''old.signed'' = Some (?td, ''mac-'' @ ex_uid)"
    by (simp add: ex_decode_def)
  have h4: "700000000 - timestamp ?td > TOKEN_MAX_AGE_MS"
    by (simp add: TOKEN_MAX_AGE_MS_def)
  have h5: "''mac-'' @ ex_uid = ex_sign ?td"
    by (simp add: ex_sign_def)
  from old_token_expired_when_signature_verifies
         [where decode = ex_decode and sign = ex_sign and findOne = ex_findOne
            and now = 700000000, OF h1 h2 h3 h4]
       h5
  have "authenticateRequest (parseToken_spec ex_decode ex_sign) ex_findOne 700000000 ?r
          = auth_fail ''Token expired''"
    by simp
  with h1 h2 h3 h4 h5 show ?thesis by simp
qed

text \<open>
  C5 (as the spec states it) fails: a token issued more than seven days ago whose
  signature does not verify fails with \<open>Invalid token format\<close>, not \<open>Token expired\<close>.
\<close>

theorem old_forged_token_counterexample:
  "ex_decode ''old.forged'' = Some (\<lparr>userId = ex_uid, timestamp = 0\<rparr>, ''forged'') \<and>
   700000000 - 0 > TOKEN_MAX_AGE_MS \<and>
   ''forged'' \<noteq> ex_sign \<lparr>userId = ex_uid, timestamp = 0\<rparr> \<and>
   authenticateRequest (parseToken_spec ex_decode ex_sign) ex_findOne 700000000
       (ex_request ''GET'' ''/api/auth/me'' [] [(''token'', ''old.forged'')])
     = \<lparr>auth_user = None, auth_error = Some ''Invalid token format''\<rparr> \<and>
   authenticateRequest (parseToken_spec ex_decode ex_sign) ex_findOne 700000000
       (ex_request ''GET'' ''/api/auth/me'' [] [(''token'', ''old.forged'')])
     \<noteq> auth_fail ''Token expired''"
  by (simp add: authenticateRequest_def parseToken_spec_def ex_decode_def ex_sign_def
      ex_request_def TOKEN_MAX_AGE_MS_def auth_fail_def ex_uid_def)

lemma authenticateRequest_cases:
  "authenticateRequest parseToken findOne now request \<in>
     auth_fail ` {''No token provided'', ''Authentication failed'', ''Invalid token format'',
                  ''Token expired'', ''Database error during authentication'',
                  ''User not found''} \<or>
   (\<exists>user. authenticateRequest parseToken findOne now request =
             \<lparr>auth_user = Some user, auth_error = None\<rparr>)"
  by (auto simp add: authenticateRequest_def Let_def split: option.splits outcome.splits)

text \<open>
  C10. \<open>POST /api/auth/logout\<close> is \<open>withAuth(handler)\<close>: a request that carries no token
  cookie, or one whose token does not parse (\<open>parseToken\<close> returns \<open>null\<close> or throws), or
  one whose token is older than seven days,
  is answered 401 with no cookie set; and a response of the route that sets any cookie was
  produced for a request that \<open>authenticateRequest\<close> resolved to a user whose role is
  \<open>user\<close>.
\<close>

theorem logout_requires_authentication:
  "((\<not> truthy (map_of (req_cookies request) ''token'') \<or>
     (\<exists>token. map_of (req_cookies request) ''token'' = Some token \<and>
        (parseToken token = Returned None \<or>
         (\<exists>err. parseToken token = Thrown err) \<or>
         (\<exists>td. parseToken token = Returned (Some td) \<and>
               now - timestamp td > TOKEN_MAX_AGE_MS)))) \<longrightarrow>
    res_status (POST_logout e parseToken findOne now request) = 401 \<and>
    res_cookies (POST_logout e parseToken findOne now request) = []) \<and>
   (res_cookies (POST_logout e parseToken findOne now request) \<noteq> [] \<longrightarrow>
      (\<exists>user. authenticateRequest parseToken findOne now request =
                \<lparr>auth_user = Some user, auth_error = None\<rparr> \<and>
              rolesInclude [''user''] (map_of user ''role'')))"
proof -
  let ?a = "authenticateRequest parseToken findOne now request"
  let ?R = "POST_logout e parseToken findOne now request"
  have rejected: "res_status ?R = 401 \<and> res_cookies ?R = []" if "?a = auth_fail msg" "msg \<noteq> []"
    for msg
    using withAuth_rejects [OF that, of e "logout_handler e" "[''user'']"]
    by (simp add: POST_logout_def NextResponse_json_def)
  have first: "res_status ?R = 401 \<and> res_cookies ?R = []"
    if h: "\<not> truthy (map_of (req_cookies request) ''token'') \<or>
           (\<exists>token. map_of (req_cookies request) ''token'' = Some token \<and>
              (parseToken token = Returned None \<or>
               (\<exists>err. parseToken token = Thrown err) \<or>
               (\<exists>td. parseToken token = Returned (Some td) \<and>
                     now - timestamp td > TOKEN_MAX_AGE_MS)))"
  proof -
    from h have "?a = auth_fail ''No token provided'' \<or> ?a = auth_fail ''Invalid token format''
                 \<or> ?a = auth_fail ''Authentication failed'' \<or> ?a = auth_fail ''Token expired''"
      by (cases "map_of (req_cookies request) ''token''")
         (auto simp add: authenticateRequest_def)
    then show ?thesis using rejected by fastforce
  qed
  have cases_a: "(\<exists>msg. ?a = auth_fail msg \<and> msg \<noteq> []) \<or>
                 (\<exists>user. ?a = \<lparr>auth_user = Some user, auth_error = None\<rparr>)"
    using authenticateRequest_cases [of parseToken findOne now request] by auto
  have second: "\<exists>user. ?a = \<lparr>auth_user = Some user, auth_error = None\<rparr> \<and>
                       rolesInclude [''user''] (map_of user ''role'')"
    if c: "res_cookies ?R \<noteq> []"
  proof -
    from cases_a c rejected obtain user
      where u: "?a = \<lparr>auth_user = Some user, auth_error = None\<rparr>"
      by blast
    have "rolesInclude [''user''] (map_of user ''role'')"
    proof (rule ccontr)
      assume "\<not> rolesInclude [''user''] (map_of user ''role'')"
      then have "res_cookies ?R = []"
        using u by (simp add: POST_logout_def withAuth_def NextResponse_json_def)
      with c show False by simp
    qed
    with u show ?thesis by blast
  qed
  from first second show ?thesis by blast
qed

theorem logout_requires_authentication_witness:
  "\<not> truthy (map_of (req_cookies (ex_request ''POST'' ''/api/auth/logout'' [] [])) ''token'') \<and>
   res_status (POST_logout ex_env_production ex_parseToken ex_findOne 2000
       (ex_request ''POST'' ''/api/auth/logout'' [] [])) = 401 \<and>
   res_cookies (POST_logout ex_env_production ex_parseToken ex_findOne 2000
       (ex_request ''POST'' ''/api/auth/logout'' [] [])) = [] \<and>
   ex_parseToken ''garbage'' = Returned None \<and>
   res_status (POST_logout ex_env_production ex_parseToken ex_findOne 2000
       (ex_request ''POST'' ''/api/auth/logout'' [] [(''token'', ''garbage'')])) = 401 \<and>
   res_cookies (POST_logout ex_env_production ex_parseToken ex_findOne 2000
       (ex_request ''POST'' ''/api/auth/logout'' [] [(''token'', ''garbage'')])) = [] \<and>
   ex_parseToken ex_token = Returned (Some \<lparr>userId = ex_uid, timestamp = 1000\<rparr>) \<and>
   700000000 - timestamp \<lparr>userId = ex_uid, timestamp = 1000\<rparr> > TOKEN_MAX_AGE_MS \<and>
   res_status (POST_logout ex_env_production ex_parseToken ex_findOne 700000000
       (ex_request ''POST'' ''/api/auth/logout'' [] [(''token'', ex_token)])) = 401 \<and>
   res_cookies (POST_logout ex_env_production ex_parseToken ex_findOne 700000000
       (ex_request ''POST'' ''/api/auth/logout'' [] [(''token'', ex_token)])) = [] \<and>
   res_cookies (POST_logout ex_env_production ex_parseToken ex_findOne 2000
       (ex_request ''POST'' ''/api/auth/logout'' [] [(''token'', ex_token)])) \<noteq> [] \<and>
   authenticateRequest ex_parseToken ex_findOne 2000
       (ex_request ''POST'' ''/api/auth/logout'' [] [(''token'', ex_token)])
     = \<lparr>auth_user = Some (withoutPassword ex_user), auth_error = None\<rparr>"
proof -
  let ?r0 = "ex_request ''POST'' ''/api/auth/logout'' [] []"
  let ?rg = "ex_request ''POST'' ''/api/auth/logout'' [] [(''token'', ''garbage'')]"
  let ?r1 = "ex_request ''POST'' ''/api/auth/logout'' [] [(''token'', ex_token)]"
  let ?td = "\<lparr>userId = ex_uid, timestamp = 1000\<rparr>"
  have h1: "\<not> truthy (map_of (req_cookies ?r0) ''token'')"
    by (simp add: ex_request_def)
  have g1: "map_of (req_cookies ?rg) ''token'' = Some ''garbage''"
    by (simp add: ex_request_def)
  have g2: "ex_parseToken ''garbage'' = Returned None"
    by (simp add: ex_parseToken_def)
  have x1: "map_of (req_cookies ?r1) ''token'' = Some ex_token"
    by (simp add: ex_request_def)
  have x2: "ex_parseToken ex_token = Returned (Some ?td)"
    by (simp add: ex_parseToken_def ex_token_def ex_uid_def)
  have x3: "700000000 - timestamp ?td > TOKEN_MAX_AGE_MS"
    by (simp add: TOKEN_MAX_AGE_MS_def)
  have h2: "res_cookies (POST_logout ex_env_production ex_parseToken ex_findOne 2000 ?r1) \<noteq> []"
    by (simp add: POST_logout_def withAuth_def ex_authenticated ex_role logout_handler_def
        cookies_set_def NextResponse_json_def)
  from logout_requires_authentication
         [where request = ?r0 and parseToken = ex_parseToken and findOne = ex_findOne
            and now = 2000 and e = ex_env_production] h1
  have a: "res_status (POST_logout ex_env_production ex_parseToken ex_findOne 2000 ?r0) = 401 \<and>
           res_cookies (POST_logout ex_env_production ex_parseToken ex_findOne 2000 ?r0) = []"
    by blast
  from logout_requires_authentication
         [where request = ?rg and parseToken = ex_parseToken and findOne = ex_findOne
            and now = 2000 and e = ex_env_production] g1 g2
  have b: "res_status (POST_logout ex_env_production ex_parseToken ex_findOne 2000 ?rg) = 401 \<and>
           res_cookies (POST_logout ex_env_production ex_parseToken ex_findOne 2000 ?rg) = []"
    by blast
  from logout_requires_authentication
         [where request = ?r1 and parseToken = ex_parseToken and findOne = ex_findOne
            and now = 700000000 and e = ex_env_production] x1 x2 x3
  have c: "res_status (POST_logout ex_env_production ex_parseToken ex_findOne 700000000 ?r1)
             = 401 \<and>
           res_cookies (POST_logout ex_env_production ex_parseToken ex_findOne 700000000 ?r1)
             = []"
    by blast
  from a b c h1 h2 g2 x2 x3 ex_authenticated [of "''POST''" "''/api/auth/logout''" "[]"]
  show ?thesis by simp
qed

text \<open>
  C9, evaluated on the code. The login route issues the cookie token; \<open>GET /api/auth/me\<close>
  with that cookie answers 200; \<open>POST /api/auth/logout\<close> with it answers 200 and sets the
  cookie to the empty string with \<open>maxAge\<close> 0; and \<open>GET /api/auth/me\<close> presenting the old
  cookie again still answers 200: nothing on the server records the logout.
\<close>

theorem old_cookie_authenticates_after_logout:
  "map_option c_value
     (map_of (res_cookies
        (POST_login ex_env_production ex_findByUsername ex_comparePassword ex_generateToken
           (Returned (JObj [(''username'', JStr ''u1''), (''password'', JStr ''Test@12345'')]))))
        ''token'') = Some ex_token \<and>
   res_status (GET_me ex_env_production ex_parseToken ex_findOne ''t'' 2000
       (ex_request ''GET'' ''/api/auth/me'' [] [(''token'', ex_token)])) = 200 \<and>
   res_status (POST_logout ex_env_production ex_parseToken ex_findOne 3000
       (ex_request ''POST'' ''/api/auth/logout'' [] [(''token'', ex_token)])) = 200 \<and>
   map_option (\<lambda>c. (c_value c, c_maxAge c))
     (map_of (res_cookies
        (POST_logout ex_env_production ex_parseToken ex_findOne 3000
           (ex_request ''POST'' ''/api/auth/logout'' [] [(''token'', ex_token)])))
        ''token'') = Some ('''', Some 0) \<and>
   res_status (GET_me ex_env_production ex_parseToken ex_findOne ''t'' 4000
       (ex_request ''GET'' ''/api/auth/me'' [] [(''token'', ex_token)])) = 200"
proof -
  have auth: "authenticateRequest ex_parseToken ex_findOne now
                (ex_request m path hs [(''token'', ex_token)])
              = \<lparr>auth_user = Some (withoutPassword ex_user), auth_error = None\<rparr>"
    if "now \<le> 5000" for now m path hs
    using that
    by (simp add: authenticateRequest_def ex_request_def ex_token_def ex_parseToken_def
        ex_uid_def ex_findOne_def TOKEN_MAX_AGE_MS_def ex_user_def)
  have login: "map_option c_value
     (map_of (res_cookies
        (POST_login ex_env_production ex_findByUsername ex_comparePassword ex_generateToken
           (Returned (JObj [(''username'', JStr ''u1''), (''password'', JStr ''Test@12345'')]))))
        ''token'') = Some ex_token"
    by (simp add: POST_login_def ex_findByUsername_def ex_comparePassword_def ex_user_def
        ex_generateToken_def login_success_def ex_env_production_def cookies_set_def
        NextResponse_json_def ex_token_def ex_uid_def)
  have me: "res_status (GET_me ex_env_production ex_parseToken ex_findOne ''t'' now
       (ex_request ''GET'' ''/api/auth/me'' [] [(''token'', ex_token)])) = 200"
    if "now \<le> 5000" for now
    by (simp add: GET_me_def withAuth_def auth [OF that] ex_role me_handler_def
        NextResponse_json_def)
  have out: "res_status (POST_logout ex_env_production ex_parseToken ex_findOne 3000
       (ex_request ''POST'' ''/api/auth/logout'' [] [(''token'', ex_token)])) = 200 \<and>
     map_option (\<lambda>c. (c_value c, c_maxAge c))
       (map_of (res_cookies
          (POST_logout ex_env_production ex_parseToken ex_findOne 3000
             (ex_request ''POST'' ''/api/auth/logout'' [] [(''token'', ex_token)])))
          ''token'') = Some ('''', Some 0)"
    by (simp add: POST_logout_def withAuth_def auth ex_role logout_handler_def
        cookies_set_def NextResponse_json_def)
  from login me [of 2000] me [of 4000] out show ?thesis by simp
qed

theorem old_cookie_authenticates_after_logout_witness:
  "res_status (GET_me ex_env_production ex_parseToken ex_findOne ''t'' 4000
       (ex_request ''GET'' ''/api/auth/me'' [] [(''token'', ex_token)])) \<noteq> 401"
  using old_cookie_authenticates_after_logout by simp

section \<open>Properties of the route gate\<close>

lemma setCorsHeaders_fresh:
  "res_headers r = [] \<Longrightarrow>
   setCorsHeaders r origin =
     r\<lparr>res_headers :=
         [(''Access-Control-Allow-Origin'', origin),
          (''Access-Control-Allow-Methods'', ''GET, POST, PUT, DELETE, OPTIONS''),
          (''Access-Control-Allow-Headers'',
           ''Content-Type, Authorization, X-Requested-With, Accept''),
          (''Access-Control-Allow-Credentials'', ''true''),
          (''Access-Control-Max-Age'', ''86400''),
          (''Vary'', ''Origin'')]\<rparr>"
  by (simp add: setCorsHeaders_def headers_set_def)

lemma middleware_OPTIONS:
  "req_method request = ''OPTIONS'' \<Longrightarrow>
   middleware e fetchVerify request =
     setCorsHeaders (NextResponse_new None 204) (origin_of request)"
  by (simp add: middleware_def)

lemma middleware_cases:
  "middleware e fetchVerify request \<in>
     {setCorsHeaders (NextResponse_new None 204) (origin_of request),
      setCorsHeaders NextResponse_next (origin_of request),
      NextResponse_next} \<union> range NextResponse_redirect"
  by (auto simp add: middleware_def Let_def split: outcome.splits)

lemma middleware_status: "res_status (middleware e fetchVerify request) \<in> {204, 200, 307}"
  using middleware_cases [of e fetchVerify request]
  by (auto simp add: setCorsHeaders_fresh NextResponse_new_def NextResponse_next_def
      NextResponse_redirect_def)

lemma middleware_no_cookies: "res_cookies (middleware e fetchVerify request) = []"
  using middleware_cases [of e fetchVerify request]
  by (auto simp add: setCorsHeaders_fresh NextResponse_new_def NextResponse_next_def
      NextResponse_redirect_def)

lemma middleware_api_pass_through:
  "req_method request \<noteq> ''OPTIONS'' \<Longrightarrow> startsWith (url_pathname (req_url request)) ''/api/'' \<Longrightarrow>
   middleware e fetchVerify request =
     (if origin_of request \<in> set allowedOrigins \<or>
         (NODE_ENV e = Some ''development'' \<and> startsWith (origin_of request) ''http://localhost'')
      then setCorsHeaders NextResponse_next (origin_of request)
      else NextResponse_next)"
  by (simp add: middleware_def Let_def)

text \<open>
  C2, on the code. A preflight request is answered 204 with an empty body and
  \<open>Access-Control-Allow-Origin\<close> set to the request's origin. No request is ever answered
  403: a request to a path under \<open>/api/\<close> that is not a preflight passes through with
  status 200, with the CORS headers when its origin is allowed and with no header when it
  is not.
\<close>

theorem gate_preflight_204_and_api_never_403:
  "(req_method request = ''OPTIONS'' \<longrightarrow>
      res_status (middleware e fetchVerify request) = 204 \<and>
      res_body (middleware e fetchVerify request) = None \<and>
      map_of (res_headers (middleware e fetchVerify request)) ''Access-Control-Allow-Origin''
        = Some (origin_of request)) \<and>
   res_status (middleware e fetchVerify request) \<noteq> 403 \<and>
   (req_method request \<noteq> ''OPTIONS'' \<and> startsWith (url_pathname (req_url request)) ''/api/'' \<longrightarrow>
      res_kind (middleware e fetchVerify request) = Next \<and>
      res_status (middleware e fetchVerify request) = 200 \<and>
      res_body (middleware e fetchVerify request) = None)"
proof -
  have a: "req_method request = ''OPTIONS'' \<longrightarrow>
      res_status (middleware e fetchVerify request) = 204 \<and>
      res_body (middleware e fetchVerify request) = None \<and>
      map_of (res_headers (middleware e fetchVerify request)) ''Access-Control-Allow-Origin''
        = Some (origin_of request)"
    by (simp add: middleware_OPTIONS setCorsHeaders_fresh NextResponse_new_def)
  have b: "res_status (middleware e fetchVerify request) \<noteq> 403"
    using middleware_status [of e fetchVerify request] by auto
  have c: "req_method request \<noteq> ''OPTIONS'' \<and>
           startsWith (url_pathname (req_url request)) ''/api/'' \<longrightarrow>
      res_kind (middleware e fetchVerify request) = Next \<and>
      res_status (middleware e fetchVerify request) = 200 \<and>
      res_body (middleware e fetchVerify request) = None"
    by (simp add: middleware_api_pass_through setCorsHeaders_fresh NextResponse_next_def)
  from a b c show ?thesis by blast
qed

theorem gate_preflight_204_and_api_never_403_witness:
  "req_method (ex_request ''GET'' ''/api/deposits'' [(''origin'', ''https://evil.example'')] [])
     \<noteq> ''OPTIONS'' \<and>
   startsWith (url_pathname (req_url
       (ex_request ''GET'' ''/api/deposits'' [(''origin'', ''https://evil.example'')] [])))
     ''/api/'' \<and>
   origin_of (ex_request ''GET'' ''/api/deposits'' [(''origin'', ''https://evil.example'')] [])
     \<notin> set allowedOrigins \<and>
   res_kind (middleware ex_env_production ex_verify_down
       (ex_request ''GET'' ''/api/deposits'' [(''origin'', ''https://evil.example'')] [])) = Next \<and>
   res_status (middleware ex_env_production ex_verify_down
       (ex_request ''GET'' ''/api/deposits'' [(''origin'', ''https://evil.example'')] [])) = 200 \<and>
   res_body (middleware ex_env_production ex_verify_down
       (ex_request ''GET'' ''/api/deposits'' [(''origin'', ''https://evil.example'')] [])) = None \<and>
   req_method (ex_request ''OPTIONS'' ''/api/deposits'' [(''origin'', ''https://london-hsc.com'')] [])
     = ''OPTIONS'' \<and>
   origin_of (ex_request ''OPTIONS'' ''/api/deposits'' [(''origin'', ''https://london-hsc.com'')] [])
     \<in> set allowedOrigins \<and>
   res_status (middleware ex_env_production ex_verify_down
       (ex_request ''OPTIONS'' ''/api/deposits'' [(''origin'', ''https://london-hsc.com'')] []))
     = 204 \<and>
   map_of (res_headers (middleware ex_env_production ex_verify_down
       (ex_request ''OPTIONS'' ''/api/deposits'' [(''origin'', ''https://london-hsc.com'')] [])))
     ''Access-Control-Allow-Origin'' = Some ''https://london-hsc.com''"
proof -
  let ?r = "ex_request ''GET'' ''/api/deposits'' [(''origin'', ''https://evil.example'')] []"
  let ?p = "ex_request ''OPTIONS'' ''/api/deposits'' [(''origin'', ''https://london-hsc.com'')] []"
  have h1: "req_method ?r \<noteq> ''OPTIONS''" by (simp add: ex_request_def)
  have h2: "startsWith (url_pathname (req_url ?r)) ''/api/''" by (simp add: ex_request_def)
  have h3: "origin_of ?r \<notin> set allowedOrigins"
    by (simp add: origin_of_def ex_request_def allowedOrigins_def)
  have h4: "req_method ?p = ''OPTIONS''" by (simp add: ex_request_def)
  have h5: "origin_of ?p = ''https://london-hsc.com''"
    by (simp add: origin_of_def ex_request_def)
  have h6: "origin_of ?p \<in> set allowedOrigins"
    unfolding h5 by (simp add: allowedOrigins_def)
  from gate_preflight_204_and_api_never_403
         [where request = ?r and e = ex_env_production and fetchVerify = ex_verify_down]
       h1 h2
  have a: "res_kind (middleware ex_env_production ex_verify_down ?r) = Next \<and>
           res_status (middleware ex_env_production ex_verify_down ?r) = 200 \<and>
           res_body (middleware ex_env_production ex_verify_down ?r) = None"
    by blast
  from gate_preflight_204_and_api_never_403
         [where request = ?p and e = ex_env_production and fetchVerify = ex_verify_down]
       h4
  have b: "res_status (middleware ex_env_production ex_verify_down ?p) = 204 \<and>
           map_of (res_headers (middleware ex_env_production ex_verify_down ?p))
             ''Access-Control-Allow-Origin'' = Some (origin_of ?p)"
    by blast
  from a b h1 h2 h3 h4 h5 h6 show ?thesis by simp
qed

text \<open>
  C6, on the code. No response of the gate, pass-through or other, carries any of the
  headers of \<open>securityHeaders\<close>: the loop that sets them is in the statements the function
  never reaches.
\<close>

theorem gate_sets_no_security_header:
  assumes "h \<in> fst ` set securityHeaders"
  shows "map_of (res_headers (middleware e fetchVerify request)) h = None"
proof -
  from assms have h: "h \<in> {''X-Content-Type-Options'', ''X-Frame-Options'', ''X-XSS-Protection'',
                          ''Referrer-Policy'', ''Permissions-Policy''}"
    by (simp add: securityHeaders_def)
  from middleware_cases [of e fetchVerify request]
  consider "middleware e fetchVerify request =
              setCorsHeaders (NextResponse_new None 204) (origin_of request)"
    | "middleware e fetchVerify request = setCorsHeaders NextResponse_next (origin_of request)"
    | "middleware e fetchVerify request = NextResponse_next"
    | u where "middleware e fetchVerify request = NextResponse_redirect u"
    by auto
  then show ?thesis
  proof cases
    case 1
    with h show ?thesis
      by (auto simp add: setCorsHeaders_fresh NextResponse_new_def)
  next
    case 2
    with h show ?thesis
      by (auto simp add: setCorsHeaders_fresh NextResponse_next_def)
  next
    case 3
    then show ?thesis by (simp add: NextResponse_next_def)
  next
    case 4
    then show ?thesis by (simp add: NextResponse_redirect_def)
  qed
qed

theorem gate_sets_no_security_header_witness:
  "''X-Frame-Options'' \<in> fst ` set securityHeaders \<and>
   res_kind (middleware ex_env_production ex_verify_down
       (ex_request ''GET'' ''/'' [(''origin'', ''https://london-hsc.com'')] [])) = Next \<and>
   map_of (res_headers (middleware ex_env_production ex_verify_down
       (ex_request ''GET'' ''/'' [(''origin'', ''https://london-hsc.com'')] [])))
     ''X-Frame-Options'' = None"
proof -
  let ?r = "ex_request ''GET'' ''/'' [(''origin'', ''https://london-hsc.com'')] []"
  have h1: "''X-Frame-Options'' \<in> fst ` set securityHeaders"
    by (simp add: securityHeaders_def)
  have h2: "res_kind (middleware ex_env_production ex_verify_down ?r) = Next"
    by (simp add: middleware_def ex_request_def origin_of_def allowedOrigins_def
        isPublicPath_def ex_env_production_def setCorsHeaders_fresh NextResponse_next_def)
  from gate_sets_no_security_header
         [OF h1, of ex_env_production ex_verify_down ?r] h1 h2
  show ?thesis by simp
qed

text \<open>
  C7, on the code. For a request that is not a preflight, to a path that is neither public
  nor under \<open>/api/\<close>, \<open>/login\<close> or \<open>/auth/\<close>, carrying a token: when the verification
  endpoint answers not-OK the gate redirects to \<open>/login\<close> with \<open>returnUrl\<close> and
  \<open>expired=true\<close>; when the call throws, the gate passes the request through. In both
  cases, as for every request, the response the gate returns sets no cookie: the clearing
  cookie is set on the pass-through response, and a new redirect response is returned.
\<close>

theorem gate_verification_outcomes:
  assumes "req_method request \<noteq> ''OPTIONS''"
    and "\<not> isPublicPath e (url_pathname (req_url request))"
    and "\<not> startsWith (url_pathname (req_url request)) ''/_next/''"
    and "\<not> startsWith (url_pathname (req_url request)) ''/static/''"
    and "\<not> startsWith (url_pathname (req_url request)) ''/public/''"
    and "\<not> startsWith (url_pathname (req_url request)) ''/api/''"
    and "\<not> startsWith (url_pathname (req_url request)) ''/login''"
    and "\<not> startsWith (url_pathname (req_url request)) ''/auth/''"
    and "getTokenFromRequest request = Some token" and "token \<noteq> []"
  shows "(fetchVerify token = Returned False \<longrightarrow>
            middleware e fetchVerify request =
              NextResponse_redirect
                \<lparr>url_base = url_base (req_url request), url_pathname = ''/login'',
                 url_searchParams = [(''returnUrl'', url_pathname (req_url request)),
                                     (''expired'', ''true'')]\<rparr>) \<and>
         (fetchVerify token = Thrown err \<longrightarrow>
            res_kind (middleware e fetchVerify request) = Next \<and>
            res_status (middleware e fetchVerify request) = 200) \<and>
         res_cookies (middleware e fetchVerify request) = []"
proof -
  have pub: "url_pathname (req_url request) \<noteq> ''/favicon.ico''"
    using assms(2) by (auto simp add: isPublicPath_def)
  have a: "fetchVerify token = Returned False \<longrightarrow>
            middleware e fetchVerify request =
              NextResponse_redirect
                \<lparr>url_base = url_base (req_url request), url_pathname = ''/login'',
                 url_searchParams = [(''returnUrl'', url_pathname (req_url request)),
                                     (''expired'', ''true'')]\<rparr>"
    using assms pub
    by (simp add: middleware_def Let_def loginUrl_of_def searchParams_set_def)
  have b: "fetchVerify token = Thrown err \<longrightarrow>
            res_kind (middleware e fetchVerify request) = Next \<and>
            res_status (middleware e fetchVerify request) = 200"
    using assms pub
    by (simp add: middleware_def Let_def setCorsHeaders_fresh NextResponse_next_def)
  from a b middleware_no_cookies [of e fetchVerify request] show ?thesis by blast
qed

theorem gate_verification_outcomes_witness:
  "getTokenFromRequest (ex_request ''GET'' ''/dashboard'' [] [(''token'', ex_token)])
     = Some ex_token \<and>
   ex_verify_rejects ex_token = Returned False \<and>
   middleware ex_env_production ex_verify_rejects
       (ex_request ''GET'' ''/dashboard'' [] [(''token'', ex_token)])
     = NextResponse_redirect
         \<lparr>url_base = ''https://london-hsc.com'', url_pathname = ''/login'',
          url_searchParams = [(''returnUrl'', ''/dashboard''), (''expired'', ''true'')]\<rparr> \<and>
   res_cookies (middleware ex_env_production ex_verify_rejects
       (ex_request ''GET'' ''/dashboard'' [] [(''token'', ex_token)])) = [] \<and>
   ex_verify_down ex_token = Thrown (ErrorObj ''fetch failed'') \<and>
   res_kind (middleware ex_env_production ex_verify_down
       (ex_request ''GET'' ''/dashboard'' [] [(''token'', ex_token)])) = Next \<and>
   res_status (middleware ex_env_production ex_verify_down
       (ex_request ''GET'' ''/dashboard'' [] [(''token'', ex_token)])) = 200"
proof -
  let ?r = "ex_request ''GET'' ''/dashboard'' [] [(''token'', ex_token)]"
  have p: "url_pathname (req_url ?r) = ''/dashboard''" by (simp add: ex_request_def)
  have h1: "req_method ?r \<noteq> ''OPTIONS''" by (simp add: ex_request_def)
  have h2: "\<not> isPublicPath ex_env_production (url_pathname (req_url ?r))"
    unfolding p by (simp add: isPublicPath_def ex_env_production_def)
  have h3: "\<not> startsWith (url_pathname (req_url ?r)) ''/_next/''" unfolding p by simp
  have h4: "\<not> startsWith (url_pathname (req_url ?r)) ''/static/''" unfolding p by simp
  have h5: "\<not> startsWith (url_pathname (req_url ?r)) ''/public/''" unfolding p by simp
  have h6: "\<not> startsWith (url_pathname (req_url ?r)) ''/api/''" unfolding p by simp
  have h7: "\<not> startsWith (url_pathname (req_url ?r)) ''/login''" unfolding p by simp
  have h8: "\<not> startsWith (url_pathname (req_url ?r)) ''/auth/''" unfolding p by simp
  have h9: "getTokenFromRequest ?r = Some ex_token"
    by (simp add: getTokenFromRequest_def ex_request_def ex_token_def)
  have h10: "ex_token \<noteq> []" by (simp add: ex_token_def)
  have v: "ex_verify_rejects ex_token = Returned False" by (simp add: ex_verify_rejects_def)
  have d: "ex_verify_down ex_token = Thrown (ErrorObj ''fetch failed'')"
    by (simp add: ex_verify_down_def)
  have u: "url_base (req_url ?r) = ''https://london-hsc.com''" by (simp add: ex_request_def)
  from gate_verification_outcomes
         [where fetchVerify = ex_verify_rejects, OF h1 h2 h3 h4 h5 h6 h7 h8 h9 h10]
       v
  have a: "middleware ex_env_production ex_verify_rejects ?r
             = NextResponse_redirect
                 \<lparr>url_base = ''https://london-hsc.com'', url_pathname = ''/login'',
                  url_searchParams = [(''returnUrl'', ''/dashboard''), (''expired'', ''true'')]\<rparr> \<and>
           res_cookies (middleware ex_env_production ex_verify_rejects ?r) = []"
    unfolding p u by blast
  from gate_verification_outcomes
         [where fetchVerify = ex_verify_down and err = "ErrorObj ''fetch failed''",
          OF h1 h2 h3 h4 h5 h6 h7 h8 h9 h10]
       d
  have b: "res_kind (middleware ex_env_production ex_verify_down ?r) = Next \<and>
           res_status (middleware ex_env_production ex_verify_down ?r) = 200"
    by blast
  from a b v d h9 show ?thesis by blast
qed

section \<open>Properties of the client session hook\<close>

lemma login_writes_auth_cache:
  "js_truthy (Some u) \<Longrightarrow>
   login (Returned (ok, Returned (JObj [(''success'', JBool True), (''user'', u)]))) now s =
     (True, s\<lparr>cl_user := Some u,
               cl_localStorage := (cl_localStorage s)
                 (AUTH_CACHE_KEY \<mapsto> JObj [(''data'', u), (''timestamp'', JNum now)]),
               cl_isLoading := False\<rparr>)"
  by (simp add: login_def setAuthCache_def)

lemma logout_clears_auth_cache:
  "cl_user (logout fetched now s) = None \<and>
   cl_localStorage (logout fetched now s) AUTH_CACHE_KEY = None"
  by (simp add: logout_def setAuthCache_def)

text \<open>
  C8, on the code. For a call of \<open>checkAuth\<close> that reaches the network: when \<open>fetch\<close>
  throws, the user state and the stored entry \<open>auth_user\<close> are as before; when the response
  is a failure (not \<open>ok\<close>, or a body object whose \<open>success\<close> is falsy), the user state is
  set to \<open>null\<close> and the entry \<open>auth_user\<close> is removed. In every case the entry
  \<open>auth_user_cache\<close>, the one \<open>login\<close> writes through \<open>setAuthCache\<close>, is left as it was.
\<close>

theorem checkAuth_clears_user_but_keeps_login_cache:
  "cl_localStorage (checkAuth force fetched currentTime s) AUTH_CACHE_KEY =
     cl_localStorage s AUTH_CACHE_KEY \<and>
   ((force \<or> cl_lastChecked s = 0 \<or> currentTime - cl_lastChecked s \<ge> 5 * 60 * 1000) \<and>
    fetched = Thrown err \<longrightarrow>
      cl_user (checkAuth force fetched currentTime s) = cl_user s \<and>
      cl_localStorage (checkAuth force fetched currentTime s) USER_STORAGE_KEY =
        cl_localStorage s USER_STORAGE_KEY) \<and>
   ((force \<or> cl_lastChecked s = 0 \<or> currentTime - cl_lastChecked s \<ge> 5 * 60 * 1000) \<and>
    fetched = Returned (ok, Returned (JObj flds)) \<and>
    \<not> (ok \<and> js_truthy (map_of flds ''success'')) \<longrightarrow>
      cl_user (checkAuth force fetched currentTime s) = None \<and>
      cl_localStorage (checkAuth force fetched currentTime s) USER_STORAGE_KEY = None)"
proof -
  have keys: "USER_STORAGE_KEY \<noteq> AUTH_CACHE_KEY" "LAST_CHECKED_KEY \<noteq> AUTH_CACHE_KEY"
    "LAST_CHECKED_KEY \<noteq> USER_STORAGE_KEY"
    by (simp_all add: USER_STORAGE_KEY_def AUTH_CACHE_KEY_def LAST_CHECKED_KEY_def)
  have a: "cl_localStorage (checkAuth force fetched currentTime s) AUTH_CACHE_KEY =
             cl_localStorage s AUTH_CACHE_KEY"
    using keys
    by (simp add: checkAuth_def Let_def split: outcome.splits prod.splits)
  have b: "(force \<or> cl_lastChecked s = 0 \<or> currentTime - cl_lastChecked s \<ge> 5 * 60 * 1000) \<and>
           fetched = Thrown err \<longrightarrow>
             cl_user (checkAuth force fetched currentTime s) = cl_user s \<and>
             cl_localStorage (checkAuth force fetched currentTime s) USER_STORAGE_KEY =
               cl_localStorage s USER_STORAGE_KEY"
    using keys by (auto simp add: checkAuth_def Let_def)
  have c: "(force \<or> cl_lastChecked s = 0 \<or> currentTime - cl_lastChecked s \<ge> 5 * 60 * 1000) \<and>
           fetched = Returned (ok, Returned (JObj flds)) \<and>
           \<not> (ok \<and> js_truthy (map_of flds ''success'')) \<longrightarrow>
             cl_user (checkAuth force fetched currentTime s) = None \<and>
             cl_localStorage (checkAuth force fetched currentTime s) USER_STORAGE_KEY = None"
    using keys by (auto simp add: checkAuth_def Let_def)
  from a b c show ?thesis by blast
qed

theorem checkAuth_clears_user_but_keeps_login_cache_witness:
  "login (Returned (True, Returned (JObj [(''success'', JBool True), (''user'', ex_public_user)])))
       1000 ex_client_initial
     = (True,
        ex_client_initial
          \<lparr>cl_user := Some ex_public_user,
           cl_localStorage := Map.empty
             (AUTH_CACHE_KEY \<mapsto> JObj [(''data'', ex_public_user), (''timestamp'', JNum 1000)]),
           cl_isLoading := False\<rparr>) \<and>
   cl_user
     (checkAuth True
        (Returned (False, Returned (JObj [(''success'', JBool False),
                                          (''message'', JStr ''Unauthorized: Token expired'')])))
        2000
        (snd (login (Returned (True, Returned (JObj [(''success'', JBool True),
                                                     (''user'', ex_public_user)])))
                1000 ex_client_initial))) = None \<and>
   cl_localStorage
     (checkAuth True
        (Returned (False, Returned (JObj [(''success'', JBool False),
                                          (''message'', JStr ''Unauthorized: Token expired'')])))
        2000
        (snd (login (Returned (True, Returned (JObj [(''success'', JBool True),
                                                     (''user'', ex_public_user)])))
                1000 ex_client_initial)))
     AUTH_CACHE_KEY
     = Some (JObj [(''data'', ex_public_user), (''timestamp'', JNum 1000)]) \<and>
   cl_user
     (checkAuth True (Thrown (ErrorObj ''Failed to fetch'')) 2000
        (snd (login (Returned (True, Returned (JObj [(''success'', JBool True),
                                                     (''user'', ex_public_user)])))
                1000 ex_client_initial))) = Some ex_public_user"
proof -
  let ?resp = "Returned (False, Returned (JObj [(''success'', JBool False),
                 (''message'', JStr ''Unauthorized: Token expired'')]))"
  have t: "js_truthy (Some ex_public_user)" by (simp add: ex_public_user_def)
  have l: "login (Returned (True, Returned (JObj [(''success'', JBool True),
                                                  (''user'', ex_public_user)])))
             1000 ex_client_initial
           = (True,
              ex_client_initial
                \<lparr>cl_user := Some ex_public_user,
                 cl_localStorage := Map.empty
                   (AUTH_CACHE_KEY \<mapsto>
                      JObj [(''data'', ex_public_user), (''timestamp'', JNum 1000)]),
                 cl_isLoading := False\<rparr>)"
    using login_writes_auth_cache [OF t, of True 1000 ex_client_initial]
    by (simp add: ex_client_initial_def)
  let ?s1 = "snd (login (Returned (True, Returned (JObj [(''success'', JBool True),
                                                         (''user'', ex_public_user)])))
                    1000 ex_client_initial)"
  have f: "\<not> (False \<and> js_truthy (map_of [(''success'', JBool False),
                 (''message'', JStr ''Unauthorized: Token expired'')] ''success''))"
    by simp
  from checkAuth_clears_user_but_keeps_login_cache
         [where force = True and fetched = ?resp and currentTime = 2000 and s = ?s1
            and ok = False
            and flds = "[(''success'', JBool False),
                           (''message'', JStr ''Unauthorized: Token expired'')]"]
  have k: "cl_localStorage (checkAuth True ?resp 2000 ?s1) AUTH_CACHE_KEY =
             cl_localStorage ?s1 AUTH_CACHE_KEY"
    and u: "cl_user (checkAuth True ?resp 2000 ?s1) = None"
    using f by blast+
  from checkAuth_clears_user_but_keeps_login_cache
         [where force = True and fetched = "Thrown (ErrorObj ''Failed to fetch'')"
            and currentTime = 2000 and s = ?s1 and err = "ErrorObj ''Failed to fetch''"]
  have n: "cl_user (checkAuth True (Thrown (ErrorObj ''Failed to fetch'')) 2000 ?s1) =
             cl_user ?s1"
    by blast
  have c: "cl_localStorage ?s1 AUTH_CACHE_KEY =
          Some (JObj [(''data'', ex_public_user), (''timestamp'', JNum 1000)])"
    by (simp add: l)
  have "cl_user ?s1 = Some ex_public_user" by (simp add: l)
  with k u l n c show ?thesis by simp
qed

end
